theory Spec2Isabelle
  imports Complex_Main "HOL-Library.Word"
begin

section \<open>Gateway link and OTA engine of backend\_api\_server.py\<close>

text \<open>
  The theory embeds the OTA part of \<^verbatim>\<open>src/backend_api_server.py\<close>: the version
  comparator, the manifest lookup, the auto-OTA policy and its worker, the protocol handlers
  of \<^verbatim>\<open>GatewayConnection\<close> and the manual trigger \<^verbatim>\<open>ota_update_core\<close>.
  The module's globals and the fields of the gateway object are the fields of one record
  \<open>world\<close>; every function takes the world and returns the new one. What the environment
  decides (the clock, the network, whether a serial write succeeds) is a parameter.
\<close>

subsection \<open>Values and strings\<close>

type_synonym byte = "8 word"

text \<open>
  A node id is what \<^verbatim>\<open>data.get('source_node')\<close> yields: the integer of the frame, or
  \<^verbatim>\<open>None\<close> when the key is missing.
\<close>

type_synonym node_id = "int option"

datatype jval = JNull | JBool bool | JInt int | JStr string

type_synonym jdict = "(string \<times> jval) list"

definition jnode :: "node_id \<Rightarrow> jval" where
  "jnode n = (case n of None \<Rightarrow> JNull | Some i \<Rightarrow> JInt i)"

definition jstr_opt :: "string option \<Rightarrow> jval" where
  "jstr_opt v = (case v of None \<Rightarrow> JNull | Some x \<Rightarrow> JStr x)"

text \<open>\<^verbatim>\<open>d.get(key, default)\<close> on a key that may be missing.\<close>

definition get_or :: "'a option \<Rightarrow> 'a \<Rightarrow> 'a" where
  "get_or v dflt = (case v of None \<Rightarrow> dflt | Some x \<Rightarrow> x)"

text \<open>Truthiness of an optional string: \<^verbatim>\<open>None\<close> and \<^verbatim>\<open>''\<close> are false.\<close>

definition truthy :: "string option \<Rightarrow> bool" where
  "truthy v = (case v of None \<Rightarrow> False | Some x \<Rightarrow> x \<noteq> [])"

text \<open>
  \<^verbatim>\<open>str(n)\<close> for an integer, and for a node id inside an f-string. Strings are
  ASCII: code points beyond it are outside the model.
\<close>

fun digits :: "nat \<Rightarrow> string" where
  "digits n =
     (if n < 10 then [char_of (48 + n)]
      else digits (n div 10) @ [char_of (48 + n mod 10)])"

definition str_int :: "int \<Rightarrow> string" where
  "str_int i = (if i < 0 then CHR ''-'' # digits (nat (- i)) else digits (nat i))"

definition str_node_id :: "node_id \<Rightarrow> string" where
  "str_node_id n = (case n of None \<Rightarrow> ''None'' | Some i \<Rightarrow> str_int i)"

definition str_opt :: "string option \<Rightarrow> string" where
  "str_opt v = (case v of None \<Rightarrow> ''None'' | Some x \<Rightarrow> x)"

text \<open>\<^verbatim>\<open>s.lower()\<close> on ASCII.\<close>

definition lower_char :: "char \<Rightarrow> char" where
  "lower_char c =
     (if 65 \<le> (of_char c :: nat) \<and> (of_char c :: nat) \<le> 90
      then char_of (of_char c + 32 :: nat) else c)"

definition lower :: "string \<Rightarrow> string" where
  "lower s = map lower_char s"

text \<open>\<^verbatim>\<open>s.split('.')\<close>: never empty, an empty string gives one empty part.\<close>

fun split_dot :: "string \<Rightarrow> string list" where
  "split_dot [] = [[]]"
| "split_dot (c # cs) =
     (if c = CHR ''.'' then [] # split_dot cs
      else (case split_dot cs of [] \<Rightarrow> [[c]] | w # ws \<Rightarrow> (c # w) # ws))"

text \<open>
  \<^verbatim>\<open>int(x)\<close> on a string, base 10: surrounding whitespace (tab, line feed, vertical
  tab, form feed, carriage return, space) is dropped, one sign is allowed, then decimal digits
  with single underscores between digits. Anything else raises \<^verbatim>\<open>ValueError\<close>, here
  \<open>None\<close>. The interpreter's limit on the number of digits is not part of the model.
\<close>

definition is_space :: "char \<Rightarrow> bool" where
  "is_space c = (of_char c \<in> {9, 10, 11, 12, 13, 32 :: nat})"

definition is_digit :: "char \<Rightarrow> bool" where
  "is_digit c = (48 \<le> (of_char c :: nat) \<and> (of_char c :: nat) \<le> 57)"

definition digit_val :: "char \<Rightarrow> nat" where
  "digit_val c = of_char c - 48"

definition strip :: "string \<Rightarrow> string" where
  "strip s = rev (dropWhile is_space (rev (dropWhile is_space s)))"

fun py_digits :: "nat \<Rightarrow> string \<Rightarrow> nat option" where
  "py_digits acc [] = Some acc"
| "py_digits acc (c # cs) =
     (if is_digit c then py_digits (acc * 10 + digit_val c) cs
      else if c = CHR ''_'' then
        (case cs of
           [] \<Rightarrow> None
         | d # ds \<Rightarrow> if is_digit d then py_digits (acc * 10 + digit_val d) ds else None)
      else None)"

definition py_nat :: "string \<Rightarrow> nat option" where
  "py_nat s =
     (case s of
        [] \<Rightarrow> None
      | c # cs \<Rightarrow> if is_digit c then py_digits (digit_val c) cs else None)"

definition py_int :: "string \<Rightarrow> int option" where
  "py_int s =
     (case strip s of
        [] \<Rightarrow> None
      | c # cs \<Rightarrow>
          if c = CHR ''-'' then map_option (\<lambda>n. - int n) (py_nat cs)
          else if c = CHR ''+'' then map_option int (py_nat cs)
          else map_option int (py_nat (c # cs)))"

subsection \<open>compare\_versions\<close>

text \<open>
  \<^verbatim>\<open>[int(x) for x in v.split('.')]\<close>: \<open>None\<close> when any part raises.
\<close>

definition parse_parts :: "string \<Rightarrow> int list option" where
  "parse_parts v = those (map py_int (split_dot v))"

text \<open>The loop over \<^verbatim>\<open>zip(current_parts, latest_parts)\<close>.\<close>

fun compare_loop :: "(int \<times> int) list \<Rightarrow> bool" where
  "compare_loop [] = False"
| "compare_loop ((c, l) # rest) =
     (if l > c then True else if l < c then False else compare_loop rest)"

text \<open>
  Both lists are built inside the \<^verbatim>\<open>try\<close>, so a part that does not parse anywhere in
  either string sends the call to the bare \<^verbatim>\<open>except\<close>.
\<close>

definition compare_versions :: "string \<Rightarrow> string \<Rightarrow> bool" where
  "compare_versions current latest =
     (case parse_parts current of
        None \<Rightarrow> current \<noteq> latest
      | Some current_parts \<Rightarrow>
          (case parse_parts latest of
             None \<Rightarrow> current \<noteq> latest
           | Some latest_parts \<Rightarrow> compare_loop (zip current_parts latest_parts)))"

text \<open>
  The comparison in the words of the specification: some position inside the shorter length
  is the first where the two lists differ, and there the latest component is the larger.
\<close>

definition first_differing_pair_newer :: "int list \<Rightarrow> int list \<Rightarrow> bool" where
  "first_differing_pair_newer cs ls =
     (\<exists>i \<in> {0 ..< min (length cs) (length ls)}.
        (\<forall>j \<in> {0 ..< i}. cs ! j = ls ! j) \<and> cs ! i \<noteq> ls ! i \<and> cs ! i < ls ! i)"

subsection \<open>Base64 and slices\<close>

text \<open>
  \<^verbatim>\<open>base64.b64encode\<close>: three bytes give four characters of the standard alphabet,
  a last group of one or two bytes is padded with \<^verbatim>\<open>=\<close>.
\<close>

definition b64_alphabet :: string where
  "b64_alphabet = ''ABCDEFGHIJKLMNOPQRSTUVWXYZabcdefghijklmnopqrstuvwxyz0123456789+/''"

definition b64_char :: "nat \<Rightarrow> char" where
  "b64_char k = b64_alphabet ! k"

fun b64encode :: "byte list \<Rightarrow> string" where
  "b64encode [] = []"
| "b64encode [a] =
     [b64_char (unat a div 4), b64_char (unat a mod 4 * 16), CHR ''='', CHR ''='']"
| "b64encode [a, b] =
     [b64_char (unat a div 4), b64_char (unat a mod 4 * 16 + unat b div 16),
      b64_char (unat b mod 16 * 4), CHR ''='']"
| "b64encode (a # b # c # rest) =
     [b64_char (unat a div 4), b64_char (unat a mod 4 * 16 + unat b div 16),
      b64_char (unat b mod 16 * 4 + unat c div 64), b64_char (unat c mod 64)]
     @ b64encode rest"

text \<open>
  The receiving side of a chunk: strict decoding of the same alphabet, four characters at a
  time, padding accepted in the last group only. It is the inverse that the round trip of
  the chunks is stated with.
\<close>

definition b64_index :: "char \<Rightarrow> nat option" where
  "b64_index c = map_of (zip b64_alphabet [0 ..< 64]) c"

definition b64_group :: "char \<Rightarrow> char \<Rightarrow> char \<Rightarrow> char \<Rightarrow> byte list option" where
  "b64_group w x y z =
     (case (b64_index w, b64_index x) of
        (Some p, Some q) \<Rightarrow>
          if y = CHR ''='' \<and> z = CHR ''='' then Some [of_nat (p * 4 + q div 16)]
          else (case b64_index y of
                  None \<Rightarrow> None
                | Some r \<Rightarrow>
                    if z = CHR ''=''
                    then Some [of_nat (p * 4 + q div 16), of_nat (q mod 16 * 16 + r div 4)]
                    else (case b64_index z of
                            None \<Rightarrow> None
                          | Some t \<Rightarrow>
                              Some [of_nat (p * 4 + q div 16),
                                    of_nat (q mod 16 * 16 + r div 4),
                                    of_nat (r mod 4 * 64 + t)]))
      | _ \<Rightarrow> None)"

fun b64decode :: "string \<Rightarrow> byte list option" where
  "b64decode [] = Some []"
| "b64decode (w # x # y # z # rest) =
     (case b64_group w x y z of
        None \<Rightarrow> None
      | Some bs \<Rightarrow>
          if rest \<noteq> [] \<and> length bs < 3 then None
          else map_option (\<lambda>tl. bs @ tl) (b64decode rest))"
| "b64decode _ = None"

text \<open>
  \<^verbatim>\<open>xs[start:stop]\<close>: a negative bound counts from the end, every bound is clamped
  to the list, and an empty range gives the empty list.
\<close>

definition norm_index :: "int \<Rightarrow> int \<Rightarrow> int" where
  "norm_index n i = (if i < 0 then max (n + i) 0 else min i n)"

definition py_slice :: "'a list \<Rightarrow> int \<Rightarrow> int \<Rightarrow> 'a list" where
  "py_slice xs start stop =
     (let n = int (length xs); a = norm_index n start; b = norm_index n stop
      in if a < b then take (nat (b - a)) (drop (nat a) xs) else [])"

subsection \<open>Data model\<close>

text \<open>
  The dictionaries of the module as records. A key that the code reads with a default
  (\<^verbatim>\<open>.get(key, default)\<close>) is an optional field.
\<close>

record node =
  n_id :: node_id
  n_name :: string
  n_token :: string
  n_version :: string
  n_role :: "string option"
  n_type :: string
  n_status :: string
  n_lastSeen :: "string option"
  n_rssi :: int
  n_temperature :: int

record session =
  firmware_data :: "byte list"
  s_version :: "string option"
  s_size :: int
  chunk_size :: "int option"
  started_at :: string
  s_node_name :: string
  s_auto :: "bool option"

record ota_event =
  h_id :: int
  h_node_id :: node_id
  h_node_name :: string
  h_version :: "string option"
  h_status :: string
  initiated_by :: string
  h_timestamp :: string
  file_size :: int
  completed_at :: "string option"

text \<open>The manifest document; \<open>m_other_keys\<close> says whether it has any further key.\<close>

record manifest =
  m_version :: "string option"
  m_assets :: "(string \<rightharpoonup> string) option"
  m_sha256 :: "(string \<rightharpoonup> string) option"
  m_other_keys :: bool

text \<open>The arguments \<^verbatim>\<open>handle_ota_check_auto\<close> starts the worker thread with.\<close>

record ota_job =
  j_node_id :: node_id
  j_node_name :: string
  j_firmware_url :: string
  j_sha256_hash :: "string option"
  j_version :: "string option"

text \<open>An inbound frame, \<^verbatim>\<open>data\<close>, with the keys the OTA handlers read.\<close>

record inbound =
  d_source_node :: node_id
  d_device_name :: "string option"
  d_idx :: "int option"
  d_ok :: "bool option"
  d_msg :: "string option"
  d_new_version :: "string option"
  d_message :: "string option"
  d_role :: "string option"
  d_fw_version :: "string option"

text \<open>
  The globals \<^verbatim>\<open>nodes\<close>, \<^verbatim>\<open>ota_history\<close>, \<^verbatim>\<open>last_auto_ota\<close>,
  \<^verbatim>\<open>manifest_cache\<close>, \<^verbatim>\<open>manifest_last_fetch\<close> and \<^verbatim>\<open>AUTO_OTA_ENABLED\<close>; the
  gateway object's \<^verbatim>\<open>ota_sessions\<close>, \<^verbatim>\<open>connected\<close> and \<^verbatim>\<open>ser\<close> (true when a port
  object is there; a missing gateway object is a gateway that is not connected); and what
  the process does to the outside: frames written to the serial port, events given to
  \<^verbatim>\<open>socketio.emit\<close>, lines given to \<^verbatim>\<open>log_event\<close>, files, started worker threads.
  Emitting an event and writing a log line are taken not to raise. A started thread is an
  entry of \<open>threads\<close>; its body, \<open>auto_ota_worker\<close>, is a function of the world it
  finds when it runs, and runs as one step.
\<close>

record world =
  nodes :: "node list"
  ota_history :: "ota_event list"
  ota_sessions :: "node_id \<rightharpoonup> session"
  last_auto_ota :: "node_id \<rightharpoonup> real"
  manifest_cache :: "manifest option"
  manifest_last_fetch :: real
  AUTO_OTA_ENABLED :: bool
  gw_connected :: bool
  gw_ser :: bool
  wire :: "jdict list"
  emitted :: "(string \<times> jdict) list"
  logs :: "(string \<times> string) list"
  files :: "string \<rightharpoonup> byte list"
  threads :: "ota_job list"

datatype py_error = ZeroDivisionError | FileNotFoundError

text \<open>How a call ends: it raises, or it returns a value; either way with the world it left.\<close>

datatype 'a outcome = Raised py_error world | Returned 'a world

definition AUTO_OTA_COOLDOWN :: real where
  "AUTO_OTA_COOLDOWN = 300"

definition emit :: "world \<Rightarrow> string \<Rightarrow> jdict \<Rightarrow> world" where
  "emit s name payload = s\<lparr>emitted := emitted s @ [(name, payload)]\<rparr>"

definition log_event :: "world \<Rightarrow> string \<Rightarrow> string \<Rightarrow> world" where
  "log_event s event_type message = s\<lparr>logs := logs s @ [(event_type, message)]\<rparr>"

text \<open>
  \<^verbatim>\<open>next((n for n in nodes if n['id'] == node_id), None)\<close> is \<open>find\<close>; assigning to a key
  of the dictionary it returned changes the first matching element of the list. The loop over
  \<^verbatim>\<open>ota_history\<close> that changes the first matching entry and breaks is the same function.
\<close>

fun update_first :: "('a \<Rightarrow> bool) \<Rightarrow> ('a \<Rightarrow> 'a) \<Rightarrow> 'a list \<Rightarrow> 'a list" where
  "update_first P f [] = []"
| "update_first P f (x # xs) = (if P x then f x # xs else x # update_first P f xs)"

subsection \<open>send\_command and send\_ota\_chunk\<close>

text \<open>
  \<open>wr\<close> says whether serialising, writing and flushing the frame go through; when one of
  them raises the method prints and returns false.
\<close>

definition send_command :: "world \<Rightarrow> bool \<Rightarrow> jdict \<Rightarrow> bool \<times> world" where
  "send_command s wr command =
     (if \<not> gw_connected s \<or> \<not> gw_ser s then (False, s)
      else if wr then (True, s\<lparr>wire := wire s @ [command]\<rparr>)
      else (False, s))"

text \<open>
  \<open>pct bytes_sent total_size\<close> stands for \<^verbatim>\<open>int((bytes_sent / total_size) * 100)\<close>, which
  the code computes in floating point; the division raises when \<open>total_size\<close> is zero.
\<close>

definition send_ota_chunk ::
  "world \<Rightarrow> bool \<Rightarrow> (int \<Rightarrow> int \<Rightarrow> int) \<Rightarrow> node_id \<Rightarrow> int \<Rightarrow> bool outcome" where
  "send_ota_chunk s wr pct node_id chunk_idx =
     (case ota_sessions s node_id of
        None \<Rightarrow> Returned False s
      | Some sess \<Rightarrow>
          (let firmware = firmware_data sess;
               csize = get_or (chunk_size sess) 1024;
               total_size = int (length firmware);
               is_auto = get_or (s_auto sess) False;
               start = chunk_idx * csize;
               stop = min (start + csize) total_size
           in if start \<ge> total_size then
                Returned True
                  (snd (send_command s wr
                     [(''type'', JStr ''ota_end''), (''target_node'', jnode node_id)]))
              else
                (let chunk_data = py_slice firmware start stop;
                     chunk_b64 = b64encode chunk_data;
                     (success, s1) = send_command s wr
                       [(''type'', JStr ''ota_chunk''), (''target_node'', jnode node_id),
                        (''idx'', JInt chunk_idx), (''data'', JStr chunk_b64)]
                 in if success then
                      (let bytes_sent = min stop total_size
                       in if total_size = 0 then Raised ZeroDivisionError s1
                          else Returned success
                            (emit s1 (if is_auto then ''auto_ota_progress'' else ''ota_progress'')
                               [(''node_id'', jnode node_id),
                                (''progress'', JInt (pct bytes_sent total_size)),
                                (''chunk'', JInt chunk_idx),
                                (''bytes_sent'', JInt bytes_sent),
                                (''total_bytes'', JInt total_size)]))
                    else Returned success s1)))"

subsection \<open>Protocol handlers\<close>

definition handle_ota_accept ::
  "world \<Rightarrow> bool \<Rightarrow> (int \<Rightarrow> int \<Rightarrow> int) \<Rightarrow> inbound \<Rightarrow> unit outcome" where
  "handle_ota_accept s wr pct d =
     (let node_id = d_source_node d
      in if ota_sessions s node_id = None then Returned () s
         else (case send_ota_chunk s wr pct node_id 0 of
                 Raised e s' \<Rightarrow> Raised e s'
               | Returned _ s' \<Rightarrow> Returned () s'))"

definition handle_ota_next ::
  "world \<Rightarrow> bool \<Rightarrow> (int \<Rightarrow> int \<Rightarrow> int) \<Rightarrow> inbound \<Rightarrow> unit outcome" where
  "handle_ota_next s wr pct d =
     (let node_id = d_source_node d;
          next_idx = get_or (d_idx d) 0
      in if ota_sessions s node_id = None then Returned () s
         else (case send_ota_chunk s wr pct node_id next_idx of
                 Raised e s' \<Rightarrow> Raised e s'
               | Returned _ s' \<Rightarrow> Returned () s'))"

text \<open>
  \<open>ts\<close> is what \<^verbatim>\<open>datetime.now().isoformat()\<close> returns during the call. The history
  loop sits inside \<^verbatim>\<open>if success and new_version\<close> and inside \<^verbatim>\<open>if node\<close>.
\<close>

definition handle_ota_result :: "world \<Rightarrow> string \<Rightarrow> inbound \<Rightarrow> unit outcome" where
  "handle_ota_result s ts d =
     (let node_id = d_source_node d;
          success = get_or (d_ok d) False;
          msg_text = get_or (d_msg d) [];
          new_version = get_or (d_new_version d) [];
          is_auto = (case ota_sessions s node_id of
                       None \<Rightarrow> False
                     | Some sess \<Rightarrow> get_or (s_auto sess) False);
          s1 = (if success \<and> new_version \<noteq> [] then
                  (case find (\<lambda>n. n_id n = node_id) (nodes s) of
                     None \<Rightarrow> s
                   | Some node \<Rightarrow>
                       s\<lparr>nodes := update_first (\<lambda>n. n_id n = node_id)
                                    (\<lambda>n. n\<lparr>n_version := new_version, n_status := ''online''\<rparr>)
                                    (nodes s),
                         ota_history := update_first
                                    (\<lambda>e. h_node_id e = node_id \<and> h_status e = ''initiated'')
                                    (\<lambda>e. e\<lparr>h_status := (if success then ''completed'' else ''failed''),
                                            completed_at := Some ts\<rparr>)
                                    (ota_history s)\<rparr>)
                else s);
          s2 = (if ota_sessions s1 node_id \<noteq> None
                then s1\<lparr>ota_sessions := (ota_sessions s1)(node_id := None)\<rparr>
                else s1);
          event_name = (if is_auto then ''auto_ota_complete'' else ''ota_complete'')
      in Returned ()
           (emit s2 event_name
              [(''node_id'', jnode node_id), (''success'', JBool success),
               (''message'', JStr msg_text), (''new_version'', JStr new_version),
               (''timestamp'', JStr ts)]))"

definition handle_ota_error :: "world \<Rightarrow> string \<Rightarrow> inbound \<Rightarrow> unit outcome" where
  "handle_ota_error s ts d =
     (let node_id = d_source_node d;
          error_msg = get_or (d_message d) ''Unknown error'';
          is_auto = (case ota_sessions s node_id of
                       None \<Rightarrow> False
                     | Some sess \<Rightarrow> get_or (s_auto sess) False);
          s1 = (if ota_sessions s node_id \<noteq> None
                then s\<lparr>ota_sessions := (ota_sessions s)(node_id := None)\<rparr>
                else s);
          event_name = (if is_auto then ''auto_ota_error'' else ''ota_error'')
      in Returned ()
           (emit s1 event_name
              [(''node_id'', jnode node_id), (''error'', JStr error_msg),
               (''timestamp'', JStr ts)]))"

subsection \<open>Manifest lookup and the auto-OTA policy\<close>

text \<open>A dictionary is true when it has a key.\<close>

definition manifest_truthy :: "manifest \<Rightarrow> bool" where
  "manifest_truthy m =
     ((case m_version m of None \<Rightarrow> False | Some _ \<Rightarrow> True)
      \<or> (case m_assets m of None \<Rightarrow> False | Some _ \<Rightarrow> True)
      \<or> (case m_sha256 m of None \<Rightarrow> False | Some _ \<Rightarrow> True)
      \<or> m_other_keys m)"

text \<open>
  What one \<^verbatim>\<open>ota_check_forward\<close> reads from outside: \<^verbatim>\<open>time.time()\<close> at the cooldown
  test, at the cache test and after the fetch, the manifest the request returns (\<open>None\<close>
  when the request or the parsing raises), \<^verbatim>\<open>datetime.now().isoformat()\<close>, and
  \<^verbatim>\<open>time.time()\<close> when the cooldown is written.
\<close>

record check_env =
  t_check :: real
  t_cache :: real
  net :: "manifest option"
  t_fetched :: real
  now_iso :: string
  t_trigger :: real

definition fetch_manifest :: "world \<Rightarrow> check_env \<Rightarrow> manifest option \<times> world" where
  "fetch_manifest s env =
     (if (case manifest_cache s of None \<Rightarrow> False | Some m \<Rightarrow> manifest_truthy m)
         \<and> t_cache env - manifest_last_fetch s < 300
      then (manifest_cache s, s)
      else (case net env of
              None \<Rightarrow> (None, s)
            | Some m \<Rightarrow> (Some m, s\<lparr>manifest_cache := Some m, manifest_last_fetch := t_fetched env\<rparr>)))"

definition get_firmware_url_for_role ::
  "world \<Rightarrow> check_env \<Rightarrow> string \<Rightarrow> (string option \<times> string option \<times> string option) \<times> world" where
  "get_firmware_url_for_role s env role =
     (case fetch_manifest s env of
        (None, s1) \<Rightarrow> ((None, None, None), s1)
      | (Some m, s1) \<Rightarrow>
          if \<not> manifest_truthy m then ((None, None, None), s1)
          else
            (let firmware_url = (case m_assets m of None \<Rightarrow> None | Some a \<Rightarrow> a role);
                 sha256_hash = (case m_sha256 m of None \<Rightarrow> None | Some h \<Rightarrow> h role);
                 version = m_version m
             in if \<not> truthy firmware_url then ((None, None, None), s1)
                else ((firmware_url, sha256_hash, version), s1)))"

text \<open>
  The handler returns at each guard in the order of the code; the cooldown is written last,
  after the worker thread is started. A manifest without \<^verbatim>\<open>version\<close> makes
  \<^verbatim>\<open>latest.split\<close> raise inside \<^verbatim>\<open>compare_versions\<close>, whose bare \<^verbatim>\<open>except\<close> then
  returns \<^verbatim>\<open>current != None\<close>, which is true.
\<close>

definition handle_ota_check_auto :: "world \<Rightarrow> check_env \<Rightarrow> inbound \<Rightarrow> world" where
  "handle_ota_check_auto s env d =
     (if \<not> AUTO_OTA_ENABLED s then s
      else
        (let node_id = d_source_node d;
             node_role = get_or (d_role d) [];
             current_fw = get_or (d_fw_version d) ''0.0.0'';
             last_update = get_or (last_auto_ota s node_id) 0
         in if t_check env - last_update < AUTO_OTA_COOLDOWN then s
            else
              (case get_firmware_url_for_role s env node_role of
                 ((firmware_url, sha256_hash, latest_version), s1) \<Rightarrow>
                   if \<not> truthy firmware_url then s1
                   else
                     (let needs_update =
                            (case latest_version of
                               None \<Rightarrow> True
                             | Some latest \<Rightarrow> compare_versions current_fw latest)
                      in if \<not> needs_update then s1
                         else
                           (let found = find (\<lambda>n. n_id n = node_id) (nodes s1);
                                node = (case found of
                                          Some n \<Rightarrow> n
                                        | None \<Rightarrow>
                                            \<lparr>n_id = node_id,
                                             n_name = ''Node_'' @ str_node_id node_id,
                                             n_token = [],
                                             n_version = current_fw,
                                             n_role = Some node_role,
                                             n_type = ''ESP32-C3'',
                                             n_status = ''online'',
                                             n_lastSeen = Some (now_iso env),
                                             n_rssi = 0,
                                             n_temperature = 0\<rparr>);
                                s2 = (case found of
                                        Some n \<Rightarrow> s1
                                      | None \<Rightarrow> s1\<lparr>nodes := nodes s1 @ [node]\<rparr>);
                                s3 = s2\<lparr>threads := threads s2 @
                                          [\<lparr>j_node_id = node_id,
                                            j_node_name = n_name node,
                                            j_firmware_url = get_or firmware_url [],
                                            j_sha256_hash = sha256_hash,
                                            j_version = latest_version\<rparr>]\<rparr>
                            in s3\<lparr>last_auto_ota := (last_auto_ota s3)(node_id \<mapsto> t_trigger env)\<rparr>)))))"

subsection \<open>The auto-OTA worker\<close>

text \<open>
  The download as the worker sees it: the request raises before any file exists, or the
  response arrives with its \<^verbatim>\<open>content-length\<close> header (if any), the chunks
  \<^verbatim>\<open>iter_content\<close> delivers, and the text of the exception when the stream breaks after
  them.
\<close>

datatype download =
    RequestFailed string
  | Streamed "string option" "byte list list" "string option"

text \<open>
  What one run of the worker reads from outside: the timestamp, the download, the path
  \<^verbatim>\<open>mkstemp\<close> returns, the hex digest function of \<^verbatim>\<open>hashlib.sha256\<close>, whether reading
  or digesting raises, and whether the serial write succeeds.
\<close>

record worker_env =
  w_now :: string
  w_download :: download
  w_temp_path :: string
  w_sha256 :: "byte list \<Rightarrow> string"
  w_sha_raises :: bool
  w_wr :: bool

text \<open>\<^verbatim>\<open>os.remove\<close> raises when the file is not there.\<close>

definition os_remove :: "world \<Rightarrow> string \<Rightarrow> unit outcome" where
  "os_remove s path =
     (case files s path of
        None \<Rightarrow> Raised FileNotFoundError s
      | Some _ \<Rightarrow> Returned () (s\<lparr>files := (files s)(path := None)\<rparr>))"

text \<open>
  The first \<^verbatim>\<open>try\<close> of the worker. \<open>Inl\<close> carries the text of the exception that sends
  control to its \<^verbatim>\<open>except\<close>; the quoting of \<^verbatim>\<open>repr\<close> in the text of a
  \<^verbatim>\<open>ValueError\<close> is plain single quotes here. \<^verbatim>\<open>mkstemp\<close> creates the file empty, the
  chunks are written as they come, and nothing in this block removes the file.
\<close>

definition download_to_temp :: "world \<Rightarrow> worker_env \<Rightarrow> (string \<times> world) + world" where
  "download_to_temp s env =
     (case w_download env of
        RequestFailed e \<Rightarrow> Inl (e, s)
      | Streamed clen chunks broke \<Rightarrow>
          (let s1 = s\<lparr>files := (files s)(w_temp_path env \<mapsto> [])\<rparr>
           in case (case clen of None \<Rightarrow> Some 0 | Some h \<Rightarrow> py_int h) of
                None \<Rightarrow>
                  Inl (''invalid literal for int() with base 10: '' @ [CHR 0x27]
                         @ get_or clen [] @ [CHR 0x27], s1)
              | Some total_size \<Rightarrow>
                  (let s2 = s1\<lparr>files := (files s1)(w_temp_path env \<mapsto> concat chunks)\<rparr>
                   in case broke of
                        Some e \<Rightarrow> Inl (e, s2)
                      | None \<Rightarrow> Inr s2)))"

text \<open>
  The last \<^verbatim>\<open>try\<close> of the worker with its \<^verbatim>\<open>finally\<close>: the session is stored under the
  node id whatever was there, the offer is sent, and the session is deleted again when the
  send fails.
\<close>

definition send_auto_offer :: "world \<Rightarrow> worker_env \<Rightarrow> ota_job \<Rightarrow> world" where
  "send_auto_offer s env job =
     (let node_id = j_node_id job;
          node_name = j_node_name job;
          version = j_version job
      in case files s (w_temp_path env) of
           None \<Rightarrow>
             emit s ''auto_ota_failed''
               [(''node_id'', jnode node_id),
                (''error'', JStr (''[Errno 2] No such file or directory: '' @ [CHR 0x27]
                                   @ w_temp_path env @ [CHR 0x27])),
                (''timestamp'', JStr (w_now env))]
         | Some fw \<Rightarrow>
             (let file_size = int (length fw);
                  s1 = s\<lparr>ota_sessions := (ota_sessions s)(node_id \<mapsto>
                          \<lparr>firmware_data = fw, s_version = version, s_size = file_size,
                           chunk_size = Some 1024, started_at = w_now env,
                           s_node_name = node_name, s_auto = Some True\<rparr>)\<rparr>;
                  (success, s2) = send_command s1 (w_wr env)
                    [(''type'', JStr ''ota_offer''), (''target_node'', jnode node_id),
                     (''version'', jstr_opt version), (''size'', JInt file_size),
                     (''chunk'', JInt 1024)];
                  s3 = (if success then
                          (let s4 = s2\<lparr>ota_history := ota_history s2 @
                                      [\<lparr>h_id = int (length (ota_history s2)) + 1,
                                        h_node_id = node_id,
                                        h_node_name = node_name,
                                        h_version = version,
                                        h_status = ''initiated'',
                                        initiated_by = ''AUTO_OTA'',
                                        h_timestamp = w_now env,
                                        file_size = file_size,
                                        completed_at = None\<rparr>]\<rparr>;
                               s5 = log_event s4 ''auto_ota''
                                      (''Auto OTA initiated for '' @ node_name @ '' v''
                                         @ str_opt version);
                               s6 = s5\<lparr>nodes := update_first (\<lambda>n. n_id n = node_id)
                                                  (\<lambda>n. n\<lparr>n_status := ''updating''\<rparr>) (nodes s5)\<rparr>
                           in emit s6 ''node_status_change''
                                [(''node_id'', jnode node_id), (''status'', JStr ''updating'')])
                        else s2\<lparr>ota_sessions := (ota_sessions s2)(node_id := None)\<rparr>)
              in s3\<lparr>files := (files s3)(w_temp_path env := None)\<rparr>))"

definition auto_ota_worker :: "world \<Rightarrow> worker_env \<Rightarrow> ota_job \<Rightarrow> unit outcome" where
  "auto_ota_worker s env job =
     (let node_id = j_node_id job;
          s0 = emit s ''auto_ota_started''
                 [(''node_id'', jnode node_id), (''node_name'', JStr (j_node_name job)),
                  (''version'', jstr_opt (j_version job)), (''timestamp'', JStr (w_now env))]
      in case download_to_temp s0 env of
           Inl (e, s1) \<Rightarrow>
             Returned ()
               (emit s1 ''auto_ota_failed''
                  [(''node_id'', jnode node_id), (''error'', JStr (''Download failed: '' @ e)),
                   (''timestamp'', JStr (w_now env))])
         | Inr s1 \<Rightarrow>
             if truthy (j_sha256_hash job) then
               (case (if w_sha_raises env then None else files s1 (w_temp_path env)) of
                  None \<Rightarrow> os_remove s1 (w_temp_path env)
                | Some content \<Rightarrow>
                    (let got = lower (w_sha256 env content);
                         expected = lower (get_or (j_sha256_hash job) [])
                     in if got \<noteq> expected then
                          (case os_remove s1 (w_temp_path env) of
                             Raised x s2 \<Rightarrow> Raised x s2
                           | Returned _ s2 \<Rightarrow>
                               Returned ()
                                 (emit s2 ''auto_ota_failed''
                                    [(''node_id'', jnode node_id),
                                     (''error'', JStr ''SHA256 verification failed''),
                                     (''timestamp'', JStr (w_now env))]))
                        else Returned () (send_auto_offer s1 env job)))
             else Returned () (send_auto_offer s1 env job))"

subsection \<open>The manual trigger\<close>

text \<open>
  \<^verbatim>\<open>ota_update_core\<close> returns the status code with the JSON body. \<^verbatim>\<open>int(node_id)\<close>
  raises on \<^verbatim>\<open>None\<close>. Between the four checks and the assignment to
  \<^verbatim>\<open>ota_sessions[node_id]\<close> nothing looks at the session map.
\<close>

definition ota_update_core ::
  "world \<Rightarrow> bool \<Rightarrow> string \<Rightarrow> node_id \<Rightarrow> string \<Rightarrow> string \<Rightarrow> string \<Rightarrow> (nat \<times> jdict) \<times> world" where
  "ota_update_core s wr ts node_id version filepath initiated_by' =
     (case files s filepath of
        None \<Rightarrow> ((404, [(''error'', JStr ''Firmware not found'')]), s)
      | Some fw \<Rightarrow>
          (case node_id of
             None \<Rightarrow> ((400, [(''error'', JStr ''Invalid node_id'')]), s)
           | Some k \<Rightarrow>
               (case find (\<lambda>n. n_id n = Some k) (nodes s) of
                  None \<Rightarrow> ((404, [(''error'', JStr ''Node not found'')]), s)
                | Some node \<Rightarrow>
                    if \<not> gw_connected s
                    then ((503, [(''error'', JStr ''Gateway not connected'')]), s)
                    else
                      (let file_size = int (length fw);
                           s1 = s\<lparr>ota_sessions := (ota_sessions s)(Some k \<mapsto>
                                   \<lparr>firmware_data = fw, s_version = Some version,
                                    s_size = file_size, chunk_size = Some 1024,
                                    started_at = ts, s_node_name = n_name node,
                                    s_auto = Some False\<rparr>)\<rparr>;
                           (success, s2) = send_command s1 wr
                             [(''type'', JStr ''ota_offer''), (''target_node'', JInt k),
                              (''version'', JStr version), (''size'', JInt file_size),
                              (''chunk'', JInt 1024)]
                       in if \<not> success then
                            ((500, [(''error'', JStr ''Failed to send OTA offer'')]),
                             s2\<lparr>ota_sessions := (ota_sessions s2)(Some k := None)\<rparr>)
                          else
                            (let ota_id = int (length (ota_history s2)) + 1;
                                 s3 = s2\<lparr>ota_history := ota_history s2 @
                                         [\<lparr>h_id = ota_id,
                                           h_node_id = Some k,
                                           h_node_name = n_name node,
                                           h_version = Some version,
                                           h_status = ''initiated'',
                                           initiated_by = initiated_by',
                                           h_timestamp = ts,
                                           file_size = file_size,
                                           completed_at = None\<rparr>]\<rparr>;
                                 s4 = log_event s3 ''ota''
                                        (''Manual OTA for '' @ n_name node @ '' v'' @ version
                                           @ '' by '' @ initiated_by');
                                 s5 = s4\<lparr>nodes := update_first (\<lambda>n. n_id n = Some k)
                                                    (\<lambda>n. n\<lparr>n_status := ''updating''\<rparr>) (nodes s4)\<rparr>;
                                 s6 = emit s5 ''node_status_change''
                                        [(''node_id'', JInt k), (''status'', JStr ''updating'')]
                             in ((200, [(''success'', JBool True), (''ota_id'', JInt ota_id),
                                        (''message'', JStr (''OTA initiated for '' @ n_name node
                                                             @ '' to v'' @ version))]),
                                 s6))))))"

subsection \<open>What a call put on the wire\<close>

text \<open>
  The frames a call added to the serial port, the world a call left, the shape of an
  \<^verbatim>\<open>ota_chunk\<close> frame, and the bytes a receiver decodes from the one chunk frame of a call.
\<close>

definition frames_sent :: "world \<Rightarrow> 'a outcome \<Rightarrow> jdict list" where
  "frames_sent s r =
     (case r of
        Raised e s' \<Rightarrow> drop (length (wire s)) (wire s')
      | Returned v s' \<Rightarrow> drop (length (wire s)) (wire s'))"

definition chunk_data_sent :: "world \<Rightarrow> 'a outcome \<Rightarrow> byte list option" where
  "chunk_data_sent s r =
     (case frames_sent s r of
        [f] \<Rightarrow>
          (if map_of f ''type'' = Some (JStr ''ota_chunk'')
           then (case map_of f ''data'' of Some (JStr x) \<Rightarrow> b64decode x | _ \<Rightarrow> None)
           else None)
      | _ \<Rightarrow> None)"

definition outcome_world :: "'a outcome \<Rightarrow> world" where
  "outcome_world r = (case r of Raised e s' \<Rightarrow> s' | Returned v s' \<Rightarrow> s')"

definition chunk_frame :: "node_id \<Rightarrow> int \<Rightarrow> byte list \<Rightarrow> jdict" where
  "chunk_frame nid i bs = [(''type'', JStr ''ota_chunk''), (''target_node'', jnode nid),
                        (''idx'', JInt i), (''data'', JStr (b64encode bs))]"

subsection \<open>A small fleet to evaluate on\<close>

text \<open>
  Node 7 is in the registry with status \<^verbatim>\<open>updating\<close>, has a manual session of five bytes
  with chunk size 2, and two open history entries; the gateway is connected.
\<close>

definition fixture_node :: node where
  "fixture_node =
     \<lparr>n_id = Some 7, n_name = ''Node_7'', n_token = [], n_version = ''2.0.0'',
      n_role = Some ''sensor'', n_type = ''ESP32-C3'', n_status = ''updating'',
      n_lastSeen = None, n_rssi = 0, n_temperature = 0\<rparr>"

definition fixture_session :: session where
  "fixture_session =
     \<lparr>firmware_data = [1, 2, 3, 4, 5], s_version = Some ''2.1.0'', s_size = 5,
      chunk_size = Some 2, started_at = ''t0'', s_node_name = ''Node_7'',
      s_auto = Some False\<rparr>"

definition fixture_entry :: "int \<Rightarrow> string \<Rightarrow> ota_event" where
  "fixture_entry k v =
     \<lparr>h_id = k, h_node_id = Some 7, h_node_name = ''Node_7'', h_version = Some v,
      h_status = ''initiated'', initiated_by = ''admin'', h_timestamp = ''t0'',
      file_size = 5, completed_at = None\<rparr>"

definition fixture_world :: world where
  "fixture_world =
     \<lparr>nodes = [fixture_node],
      ota_history = [fixture_entry 1 ''2.0.9'', fixture_entry 2 ''2.1.0''],
      ota_sessions = [Some 7 \<mapsto> fixture_session],
      last_auto_ota = Map.empty,
      manifest_cache = None,
      manifest_last_fetch = 0,
      AUTO_OTA_ENABLED = True,
      gw_connected = True,
      gw_ser = True,
      wire = [],
      emitted = [],
      logs = [],
      files = [''firmware_uploads/fw.bin'' \<mapsto> [9, 8, 7]],
      threads = []\<rparr>"

text \<open>
  Frames to evaluate the handlers on, the fleet without any session, and the fleet with an
  empty registry.
\<close>

definition result_frame :: "node_id \<Rightarrow> bool \<Rightarrow> string \<Rightarrow> inbound" where
  "result_frame nid okv nv =
     \<lparr>d_source_node = nid, d_device_name = None, d_idx = None, d_ok = Some okv,
      d_msg = Some ''done'', d_new_version = Some nv, d_message = None, d_role = None,
      d_fw_version = None\<rparr>"

definition accept_frame :: "node_id \<Rightarrow> int option \<Rightarrow> inbound" where
  "accept_frame nid i =
     \<lparr>d_source_node = nid, d_device_name = None, d_idx = i, d_ok = None,
      d_msg = None, d_new_version = None, d_message = None, d_role = None,
      d_fw_version = None\<rparr>"

definition stray_world :: world where
  "stray_world = fixture_world\<lparr>ota_sessions := Map.empty\<rparr>"

definition unknown_world :: world where
  "unknown_world = fixture_world\<lparr>nodes := []\<rparr>"

text \<open>
  A version check from node 7 while the manifest cannot be fetched, and a worker run for
  node 7 whose download breaks after the first chunk or completes with three bytes.
\<close>

definition check_frame :: inbound where
  "check_frame =
     \<lparr>d_source_node = Some 7, d_device_name = None, d_idx = None, d_ok = None,
      d_msg = None, d_new_version = None, d_message = None, d_role = Some ''sensor'',
      d_fw_version = Some ''2.0.0''\<rparr>"

definition offline_env :: check_env where
  "offline_env =
     \<lparr>t_check = 1000, t_cache = 1000, net = None, t_fetched = 1000, now_iso = ''t1'',
      t_trigger = 1001\<rparr>"

definition fixture_job :: ota_job where
  "fixture_job =
     \<lparr>j_node_id = Some 7, j_node_name = ''Node_7'', j_firmware_url = ''http://fw/sensor.bin'',
      j_sha256_hash = Some ''AB'', j_version = Some ''3.0.0''\<rparr>"

definition fixture_worker_env :: "download \<Rightarrow> bool \<Rightarrow> bool \<Rightarrow> worker_env" where
  "fixture_worker_env dl raises wr =
     \<lparr>w_now = ''t1'', w_download = dl, w_temp_path = ''/tmp/auto_ota_1.bin'',
      w_sha256 = (\<lambda>bs. ''ab''), w_sha_raises = raises, w_wr = wr\<rparr>"

section \<open>Properties\<close>

subsection \<open>Version comparison\<close>

lemma first_differing_alt:
  "first_differing_pair_newer cs ls =
     (\<exists>i. i < length cs \<and> i < length ls \<and> (\<forall>j<i. cs ! j = ls ! j) \<and> cs ! i < ls ! i)"
  unfolding first_differing_pair_newer_def Bex_def Ball_def
  by (simp add: conj_assoc) (metis less_irrefl)

lemma first_differing_Cons:
  "first_differing_pair_newer (c # cs) (l # ls) =
     (c < l \<or> (c = l \<and> first_differing_pair_newer cs ls))"
proof
  assume "first_differing_pair_newer (c # cs) (l # ls)"
  then obtain i where i: "i < length (c # cs)" "i < length (l # ls)"
      "\<forall>j<i. (c # cs) ! j = (l # ls) ! j" "(c # cs) ! i < (l # ls) ! i"
    unfolding first_differing_alt by blast
  show "c < l \<or> (c = l \<and> first_differing_pair_newer cs ls)"
  proof (cases i)
    case 0
    with i(4) show ?thesis by simp
  next
    case (Suc k)
    with i(3) have "c = l" by auto
    moreover from Suc i(3) have "\<forall>j<k. cs ! j = ls ! j" by auto
    with Suc i have "first_differing_pair_newer cs ls"
      unfolding first_differing_alt by auto
    ultimately show ?thesis by simp
  qed
next
  assume "c < l \<or> (c = l \<and> first_differing_pair_newer cs ls)"
  then show "first_differing_pair_newer (c # cs) (l # ls)"
  proof
    assume "c < l"
    then show ?thesis unfolding first_differing_alt by (intro exI[of _ 0]) simp
  next
    assume a: "c = l \<and> first_differing_pair_newer cs ls"
    then obtain k where k: "k < length cs" "k < length ls"
        "\<forall>j<k. cs ! j = ls ! j" "cs ! k < ls ! k"
      unfolding first_differing_alt by blast
    have "\<forall>j<Suc k. (c # cs) ! j = (l # ls) ! j"
      using a k(3) by (auto simp: nth_Cons split: nat.splits)
    with k show ?thesis unfolding first_differing_alt by (intro exI[of _ "Suc k"]) simp
  qed
qed

lemma compare_loop_first_differing:
  "compare_loop (zip cs ls) = first_differing_pair_newer cs ls"
proof (induction cs ls rule: list_induct2')
  case (4 c cs l ls)
  then show ?case by (auto simp: first_differing_Cons)
qed (simp_all add: first_differing_pair_newer_def)

text \<open>
  Claim C2. \<open>compare_versions\<close> splits both strings on the dot and parses every part as an
  integer. When all parts parse, the result is true exactly when the first differing pair
  inside the shorter length has the larger component on the latest side, and false when no
  pair differs there; when some part does not parse, the result is the string inequality
  \<open>current \<noteq> latest\<close>. The three examples of the specification come out as stated.
\<close>

theorem compare_versions_spec:
  "compare_versions current latest =
     (case (parse_parts current, parse_parts latest) of
        (Some cs, Some ls) \<Rightarrow> first_differing_pair_newer cs ls
      | _ \<Rightarrow> current \<noteq> latest)
   \<and> compare_versions ''2.1'' ''2.1.0'' = False
   \<and> compare_versions ''2.1.0'' ''2.1.1'' = True
   \<and> compare_versions ''2.1.1'' ''2.1.0'' = False"
proof -
  have general: "compare_versions current latest =
     (case (parse_parts current, parse_parts latest) of
        (Some cs, Some ls) \<Rightarrow> first_differing_pair_newer cs ls
      | _ \<Rightarrow> current \<noteq> latest)"
    by (simp add: compare_versions_def compare_loop_first_differing split: option.splits)
  have e1: "compare_versions ''2.1'' ''2.1.0'' = False" by code_simp
  have e2: "compare_versions ''2.1.0'' ''2.1.1'' = True" by code_simp
  have e3: "compare_versions ''2.1.1'' ''2.1.0'' = False" by code_simp
  from general e1 e2 e3 show ?thesis by blast
qed

theorem compare_versions_spec_witness:
  "parse_parts ''2.1.0'' = Some [2, 1, 0] \<and> parse_parts ''2.1.1'' = Some [2, 1, 1]
   \<and> first_differing_pair_newer [2, 1, 0] [2, 1, 1]
   \<and> compare_versions ''2.1.0'' ''2.1.1''
   \<and> parse_parts ''2.x'' = None \<and> compare_versions ''2.x'' ''2.x'' = False"
proof -
  have p1: "parse_parts ''2.1.0'' = Some [2, 1, 0]" by code_simp
  have p2: "parse_parts ''2.1.1'' = Some [2, 1, 1]" by code_simp
  have p3: "parse_parts ''2.x'' = None" by code_simp
  have fd: "first_differing_pair_newer [2, 1, 0] [2, 1, 1]" by code_simp
  have "compare_versions ''2.1.0'' ''2.1.1''"
    using compare_versions_spec [of "''2.1.0''" "''2.1.1''"] p1 p2 fd by simp
  moreover have "compare_versions ''2.x'' ''2.x'' = False"
    using compare_versions_spec [of "''2.x''" "''2.x''"] p3 by simp
  ultimately show ?thesis using p1 p2 p3 fd by simp
qed

subsection \<open>Chunks\<close>

lemma b64_alphabet_distinct: "distinct b64_alphabet"
  by (simp add: b64_alphabet_def)

lemma b64_alphabet_length: "length b64_alphabet = 64"
  by (simp add: b64_alphabet_def)

lemma b64_index_char: "k < 64 \<Longrightarrow> b64_index (b64_char k) = Some k"
  unfolding b64_index_def b64_char_def
  using map_of_zip_nth [of b64_alphabet "[0 ..< 64]" k]
  by (simp add: b64_alphabet_distinct b64_alphabet_length)

lemma b64_index_pad: "b64_index CHR ''='' = None"
  by (simp add: b64_index_def b64_alphabet_def)

lemma b64_char_not_pad: "k < 64 \<Longrightarrow> b64_char k \<noteq> CHR ''=''"
  using b64_index_char [of k] b64_index_pad by auto

lemma byte_bound: "unat (a :: byte) < 256"
  using unsigned_less [of a, where 'a = nat] by simp


lemma sextet_bounds:
  fixes x y z :: nat
  assumes "x < 256" "y < 256" "z < 256"
  shows "x div 4 < 64" "x mod 4 * 16 + y div 16 < 64" "y mod 16 * 4 + z div 64 < 64"
    "z mod 64 < 64" "x mod 4 * 16 < 64" "y mod 16 * 4 < 64"
  using assms by arith+

lemma sextet_join1:
  fixes x y z :: nat
  assumes "y < 256"
  shows "x div 4 * 4 + (x mod 4 * 16 + y div 16) div 16 = x"
  using assms by simp
lemma sextet_join2:
  fixes x y z :: nat
  assumes "y < 256" "z < 256"
  shows     "(x mod 4 * 16 + y div 16) mod 16 * 16 + (y mod 16 * 4 + z div 64) div 4 = y"
  using assms by simp
lemma sextet_join3:
  fixes x y z :: nat
  assumes "y < 256" "z < 256"
  shows "(y mod 16 * 4 + z div 64) mod 4 * 64 + z mod 64 = z"
  using assms by simp
lemma sextet_join4:
  fixes x y z :: nat
  shows    "x div 4 * 4 + (x mod 4 * 16) div 16 = x"
  by simp
lemma sextet_join5:
  fixes x y z :: nat
  assumes "y < 256" 
  shows    "(x mod 4 * 16 + y div 16) mod 16 * 16 + (y mod 16 * 4) div 4 = y"
  using assms by simp



lemma b64_group_full:
  assumes "p < 64" "q < 64" "r < 64" "t < 64"
  shows "b64_group (b64_char p) (b64_char q) (b64_char r) (b64_char t)
         = Some [of_nat (p * 4 + q div 16), of_nat (q mod 16 * 16 + r div 4),
                 of_nat (r mod 4 * 64 + t)]"
  using assms by (simp add: b64_group_def b64_index_char b64_char_not_pad)

lemma b64_group_pad1:
  assumes "p < 64" "q < 64" "r < 64"
  shows "b64_group (b64_char p) (b64_char q) (b64_char r) CHR ''=''
         = Some [of_nat (p * 4 + q div 16), of_nat (q mod 16 * 16 + r div 4)]"
  using assms by (simp add: b64_group_def b64_index_char b64_char_not_pad)

lemma b64_group_pad2:
  assumes "p < 64" "q < 64"
  shows "b64_group (b64_char p) (b64_char q) CHR ''='' CHR ''=''
         = Some [of_nat (p * 4 + q div 16)]"
  using assms by (simp add: b64_group_def b64_index_char)

lemma b64_group_3:
  "b64_group (b64_char (unat a div 4)) (b64_char (unat a mod 4 * 16 + unat b div 16))
      (b64_char (unat b mod 16 * 4 + unat c div 64)) (b64_char (unat c mod 64))
   = Some [a, b, c :: byte]"
proof -
  note bd = byte_bound [of a] byte_bound [of b] byte_bound [of c]
  note k = sextet_bounds [OF bd]
  have "b64_group (b64_char (unat a div 4)) (b64_char (unat a mod 4 * 16 + unat b div 16))
      (b64_char (unat b mod 16 * 4 + unat c div 64)) (b64_char (unat c mod 64))
      = Some [of_nat (unat a), of_nat (unat b), of_nat (unat c)]"
    unfolding b64_group_full [OF k(1) k(2) k(3) k(4)]
    by (simp only: sextet_join1 [OF bd(2)] sextet_join2 [OF bd(2) bd(3)] sextet_join3 [OF bd(2) bd(3)])
  then show ?thesis by simp
qed

lemma b64_group_2:
  "b64_group (b64_char (unat a div 4)) (b64_char (unat a mod 4 * 16 + unat b div 16))
      (b64_char (unat b mod 16 * 4)) CHR ''=''
   = Some [a, b :: byte]"
proof -
  note bd = byte_bound [of a] byte_bound [of b] byte_bound [of b]
  note k = sextet_bounds [OF bd]
  have "b64_group (b64_char (unat a div 4)) (b64_char (unat a mod 4 * 16 + unat b div 16))
      (b64_char (unat b mod 16 * 4)) CHR ''=''
      = Some [of_nat (unat a), of_nat (unat b)]"
    unfolding b64_group_pad1 [OF k(1) k(2) k(6)]
    by (simp only: sextet_join1 [OF bd(2)] sextet_join5 [OF bd(2)])
  then show ?thesis by simp
qed

lemma b64_group_1:
  "b64_group (b64_char (unat a div 4)) (b64_char (unat a mod 4 * 16)) CHR ''='' CHR ''=''
   = Some [a :: byte]"
proof -
  note bd = byte_bound [of a] byte_bound [of a] byte_bound [of a]
  note k = sextet_bounds [OF bd]
  have "b64_group (b64_char (unat a div 4)) (b64_char (unat a mod 4 * 16)) CHR ''='' CHR ''=''
      = Some [of_nat (unat a)]"
    unfolding b64_group_pad2 [OF k(1) k(5)]
    by (simp only: sextet_join4)
  then show ?thesis by simp
qed

lemma b64decode_b64encode: "b64decode (b64encode bs) = Some bs"
proof (induction bs rule: b64encode.induct)
  case 1
  show ?case by simp
next
  case (2 a)
  show ?case by (simp add: b64_group_1)
next
  case (3 a b)
  show ?case by (simp add: b64_group_2)
next
  case (4 a b c rest)
  then show ?case by (simp add: b64_group_3)
qed

lemma py_slice_chunk:
  assumes "0 \<le> i" "0 < C" "i * C < int (length xs)"
  shows "py_slice xs (i * C) (min (i * C + C) (int (length xs)))
         = take (nat C) (drop (nat i * nat C) xs)"
proof -
  define n where "n = int (length xs)"
  define a where "a = i * C"
  have a0: "0 \<le> a" using assms by (simp add: a_def)
  have an: "a < n" using assms by (simp add: a_def n_def)
  have na: "norm_index n a = a"
    using a0 an by (simp add: norm_index_def)
  have nb: "norm_index n (min (a + C) n) = min (a + C) n"
    using a0 an assms(2) by (simp add: norm_index_def)
  have lt: "a < min (a + C) n" using an assms(2) by simp
  have nat_a: "nat a = nat i * nat C"
    using assms(1) by (simp add: a_def nat_mult_distrib)
  have len: "length (drop (nat a) xs) = nat (n - a)"
    using a0 by (simp add: n_def nat_diff_distrib)
  have "take (nat (min (a + C) n - a)) (drop (nat a) xs) = take (nat C) (drop (nat a) xs)"
  proof (cases "a + C \<le> n")
    case True
    then show ?thesis by (simp add: min_def)
  next
    case False
    then have "nat (n - a) \<le> nat C" by simp
    with False len show ?thesis by (simp add: min_def)
  qed
  then show ?thesis
    unfolding py_slice_def Let_def n_def [symmetric] a_def [symmetric]
    using na nb lt nat_a by simp
qed

lemma concat_chunks_take:
  "concat (map (\<lambda>i. take c (drop (i * c) xs)) [0 ..< k]) = take (k * c) xs"
proof (induction k)
  case 0
  show ?case by simp
next
  case (Suc k)
  have e: "Suc k * c = k * c + c" by simp
  have t: "take (Suc k * c) xs = take (k * c) xs @ take c (drop (k * c) xs)"
    unfolding e by (rule take_add)
  have "concat (map (\<lambda>i. take c (drop (i * c) xs)) [0 ..< Suc k])
        = concat (map (\<lambda>i. take c (drop (i * c) xs)) [0 ..< k]) @ take c (drop (k * c) xs)"
    by simp
  also have "\<dots> = take (k * c) xs @ take c (drop (k * c) xs)"
    by (simp only: Suc.IH)
  finally show ?case by (simp only: t)
qed

lemma send_ota_chunk_data:
  assumes sess: "ota_sessions s nid = Some sess"
    and link: "gw_connected s" "gw_ser s"
    and C: "get_or (chunk_size sess) 1024 = C" "0 < C"
    and idx: "0 \<le> i" "i * C < int (length (firmware_data sess))"
  shows "send_ota_chunk s True pct nid i =
     Returned True
       (emit (s\<lparr>wire := wire s @
                [chunk_frame nid i (take (nat C) (drop (nat i * nat C) (firmware_data sess)))]\<rparr>)
          (if get_or (s_auto sess) False then ''auto_ota_progress'' else ''ota_progress'')
          [(''node_id'', jnode nid),
           (''progress'', JInt (pct (min (i * C + C) (int (length (firmware_data sess))))
                                     (int (length (firmware_data sess))))),
           (''chunk'', JInt i),
           (''bytes_sent'', JInt (min (i * C + C) (int (length (firmware_data sess))))),
           (''total_bytes'', JInt (int (length (firmware_data sess))))])"
proof -
  have nz: "int (length (firmware_data sess)) \<noteq> 0" using idx C by (smt (verit) mult_nonneg_nonneg)
  have lt: "\<not> int (length (firmware_data sess)) \<le> i * C" using idx by simp
  show ?thesis
    unfolding send_ota_chunk_def
    using sess link C(1) nz lt
    by (simp add: Let_def send_command_def py_slice_chunk [OF idx(1) C(2) idx(2)] chunk_frame_def)
qed

lemma send_ota_chunk_end:
  assumes sess: "ota_sessions s nid = Some sess"
    and link: "gw_connected s" "gw_ser s"
    and C: "get_or (chunk_size sess) 1024 = C"
    and idx: "i * C \<ge> int (length (firmware_data sess))"
  shows "send_ota_chunk s True pct nid i =
     Returned True
       (s\<lparr>wire := wire s @ [[(''type'', JStr ''ota_end''), (''target_node'', jnode nid)]]\<rparr>)"
  unfolding send_ota_chunk_def
  using sess link C idx
  by (simp add: Let_def send_command_def)


lemma send_ota_chunk_slice:
  assumes sess: "ota_sessions s nid = Some sess"
    and link: "gw_connected s" "gw_ser s"
    and C: "get_or (chunk_size sess) 1024 = C"
    and idx: "i * C < int (length (firmware_data sess))"
  shows "frames_sent s (send_ota_chunk s True pct nid i) =
     [chunk_frame nid i
        (py_slice (firmware_data sess) (i * C) (min (i * C + C) (int (length (firmware_data sess)))))]"
proof -
  have lt: "\<not> int (length (firmware_data sess)) \<le> i * C" using idx by simp
  show ?thesis
    unfolding send_ota_chunk_def
    using sess link C lt
    by (simp add: Let_def send_command_def chunk_frame_def frames_sent_def emit_def)
qed

lemma those_map_Some: "those (map (\<lambda>i. Some (f i)) xs) = Some (map f xs)"
  by (induction xs) simp_all

lemma bytes_range_take_drop:
  assumes "a \<le> b" "b \<le> length xs"
  shows "map ((!) xs) [a ..< b] = take (b - a) (drop a xs)"
proof (rule map_upt_eqI)
  show "length (take (b - a) (drop a xs)) = b - a" using assms by simp
next
  fix i assume "i < length (take (b - a) (drop a xs))"
  then show "take (b - a) (drop a xs) ! i = xs ! (a + i)" using assms by simp
qed

lemma chunk_range:
  assumes "0 \<le> i" "0 < C" "i * C < int (length xs)"
  shows "map ((!) xs) [nat (i * C) ..< nat (min ((i + 1) * C) (int (length xs)))]
         = take (nat C) (drop (nat i * nat C) xs)"
proof -
  define a where "a = nat i * nat C"
  define b where "b = min (a + nat C) (length xs)"
  have i0: "0 \<le> i * C" using assms by simp
  have a: "nat (i * C) = a" using assms(1) by (simp add: a_def nat_mult_distrib)
  have al: "a < length xs" using assms(3) i0 a by linarith
  have "(i + 1) * C = i * C + C" by (simp add: algebra_simps)
  then have "nat ((i + 1) * C) = a + nat C"
    using i0 assms(2) a by (simp add: nat_add_distrib)
  then have b: "nat (min ((i + 1) * C) (int (length xs))) = b"
    unfolding b_def min_def by auto
  have ab: "a \<le> b" using al by (simp add: b_def)
  have bl: "b \<le> length xs" by (simp add: b_def)
  have d: "b - a = min (nat C) (length xs - a)"
    using al by (simp add: b_def min_def)
  have "map ((!) xs) [a ..< b] = take (b - a) (drop a xs)"
    by (rule bytes_range_take_drop [OF ab bl])
  also have "\<dots> = take (nat C) (drop a xs)"
    unfolding d by (simp add: min_def)
  finally show ?thesis unfolding a b by (simp only: a_def)
qed

text \<open>
  Claim C1. Let a node have a session with firmware \<open>F\<close> and chunk size \<open>C > 0\<close> (1024 when
  the session has no chunk size), on a connected gateway whose write succeeds. For every index
  \<open>i\<close> with \<open>i * C < length F\<close> the call writes one \<^verbatim>\<open>ota_chunk\<close> frame whose data is the
  base64 text of the slice \<^verbatim>\<open>F[i*C : min(i*C + C, len(F))]\<close>; for \<open>i \<ge> 0\<close> these are the
  bytes at the positions from \<open>i * C\<close> up to, not including, \<open>min ((i + 1) * C) (length F)\<close>,
  and the session map is unchanged. For every \<open>i\<close> with \<open>i * C \<ge> length F\<close> the call writes
  one \<^verbatim>\<open>ota_end\<close> frame, returns true and changes nothing else, so the session stays.
  Decoding the chunks for the indices \<open>0\<close> to \<open>ceil (length F / C) - 1\<close> and concatenating
  them in this order gives \<open>F\<close>, whether or not \<open>C\<close> divides \<open>length F\<close>.
\<close>

theorem chunk_round_trip:
  assumes sess: "ota_sessions s nid = Some sess"
    and link: "gw_connected s" "gw_ser s"
    and C: "get_or (chunk_size sess) 1024 = C" "0 < C"
    and F: "firmware_data sess = F"
  shows "(\<forall>i. i * C < int (length F) \<longrightarrow>
            frames_sent s (send_ota_chunk s True pct nid i) =
              [chunk_frame nid i (py_slice F (i * C) (min (i * C + C) (int (length F))))])
       \<and> (\<forall>i. 0 \<le> i \<and> i * C < int (length F) \<longrightarrow>
            frames_sent s (send_ota_chunk s True pct nid i) =
              [chunk_frame nid i
                 (map ((!) F) [nat (i * C) ..< nat (min ((i + 1) * C) (int (length F)))])]
            \<and> ota_sessions (outcome_world (send_ota_chunk s True pct nid i)) = ota_sessions s)
       \<and> (\<forall>i. i * C \<ge> int (length F) \<longrightarrow>
            send_ota_chunk s True pct nid i =
              Returned True
                (s\<lparr>wire := wire s @ [[(''type'', JStr ''ota_end''), (''target_node'', jnode nid)]]\<rparr>)
            \<and> ota_sessions (outcome_world (send_ota_chunk s True pct nid i)) nid = Some sess)
       \<and> map_option concat
            (those (map (\<lambda>k. chunk_data_sent s (send_ota_chunk s True pct nid (int k)))
                      [0 ..< nat ((int (length F) + C - 1) div C)]))
          = Some F"
proof (intro conjI allI impI)
  fix i assume "i * C < int (length F)"
  then have i2: "i * C < int (length (firmware_data sess))" using F by simp
  show "frames_sent s (send_ota_chunk s True pct nid i) =
              [chunk_frame nid i (py_slice F (i * C) (min (i * C + C) (int (length F))))]"
    using send_ota_chunk_slice [OF sess link C(1) i2, of pct] F by simp
next
  fix i assume i: "0 \<le> i \<and> i * C < int (length F)"
  then have i1: "0 \<le> i" and i2: "i * C < int (length (firmware_data sess))" using F by simp_all
  note d = send_ota_chunk_data [OF sess link C i1 i2, of pct]
  show "frames_sent s (send_ota_chunk s True pct nid i) =
              [chunk_frame nid i
                 (map ((!) F) [nat (i * C) ..< nat (min ((i + 1) * C) (int (length F)))])]"
    unfolding d using chunk_range [OF i1 C(2) i2] F
    by (simp add: frames_sent_def emit_def)
  show "ota_sessions (outcome_world (send_ota_chunk s True pct nid i)) = ota_sessions s"
    unfolding d by (simp add: outcome_world_def emit_def)
next
  fix i assume i: "int (length F) \<le> i * C"
  then have i': "int (length (firmware_data sess)) \<le> i * C" using F by simp
  note e = send_ota_chunk_end [OF sess link C(1) i', of pct]
  show "send_ota_chunk s True pct nid i =
              Returned True
                (s\<lparr>wire := wire s @ [[(''type'', JStr ''ota_end''), (''target_node'', jnode nid)]]\<rparr>)"
    by (rule e)
  show "ota_sessions (outcome_world (send_ota_chunk s True pct nid i)) nid = Some sess"
    unfolding e using sess by (simp add: outcome_world_def)
next
  define n where "n = nat ((int (length F) + C - 1) div C)"
  have cover: "length F \<le> n * nat C"
  proof -
    define q where "q = (int (length F) + C - 1) div C"
    have "int (length F) + C - 1 = q * C + (int (length F) + C - 1) mod C"
      by (simp add: q_def)
    moreover have "(int (length F) + C - 1) mod C < C"
      using C(2) by simp
    ultimately have le: "int (length F) \<le> q * C" by linarith
    have q0: "0 \<le> q"
      using C(2) by (simp add: q_def pos_imp_zdiv_nonneg_iff)
    have "int (n * nat C) = q * C"
      using q0 C(2) by (simp add: n_def q_def [symmetric])
    with le have "int (length F) \<le> int (n * nat C)" by simp
    then show ?thesis by (simp only: of_nat_le_iff)
  qed
  have each: "chunk_data_sent s (send_ota_chunk s True pct nid (int k))
              = Some (take (nat C) (drop (k * nat C) F))" if "k < n" for k
  proof -
    have "int k < (int (length F) + C - 1) div C" using that by (simp add: n_def)
    then have "int k + 1 \<le> (int (length F) + C - 1) div C" by simp
    then have "(int k + 1) * C \<le> ((int (length F) + C - 1) div C) * C"
      using C(2) by (simp add: mult_right_mono)
    also have "\<dots> \<le> int (length F) + C - 1"
    proof -
      have "0 \<le> (int (length F) + C - 1) mod C" using C(2) by simp
      moreover have "int (length F) + C - 1
          = ((int (length F) + C - 1) div C) * C + (int (length F) + C - 1) mod C"
        by simp
      ultimately show ?thesis by linarith
    qed
    finally have "int k * C + C \<le> int (length F) + C - 1"
      by (simp add: algebra_simps)
    then have k2: "int k * C < int (length (firmware_data sess))" using F by simp
    have k1: "0 \<le> int k" by simp
    show ?thesis
      unfolding send_ota_chunk_data [OF sess link C k1 k2, of pct]
      using F by (simp add: chunk_data_sent_def frames_sent_def emit_def chunk_frame_def
          b64decode_b64encode)
  qed
  have "map (\<lambda>k. chunk_data_sent s (send_ota_chunk s True pct nid (int k))) [0 ..< n]
        = map (\<lambda>k. Some (take (nat C) (drop (k * nat C) F))) [0 ..< n]"
    using each by simp
  then have "map_option concat
            (those (map (\<lambda>k. chunk_data_sent s (send_ota_chunk s True pct nid (int k))) [0 ..< n]))
        = Some (concat (map (\<lambda>k. take (nat C) (drop (k * nat C) F)) [0 ..< n]))"
    by (simp only: those_map_Some option.map)
  also have "\<dots> = Some (take (n * nat C) F)"
    by (simp only: concat_chunks_take)
  also have "\<dots> = Some F" using cover by simp
  finally show "map_option concat
            (those (map (\<lambda>k. chunk_data_sent s (send_ota_chunk s True pct nid (int k)))
                      [0 ..< nat ((int (length F) + C - 1) div C)]))
          = Some F"
    unfolding n_def .
qed


theorem chunk_round_trip_witness:
  "ota_sessions fixture_world (Some 7) = Some fixture_session
   \<and> gw_connected fixture_world \<and> gw_ser fixture_world
   \<and> get_or (chunk_size fixture_session) 1024 = 2 \<and> (0::int) < 2
   \<and> frames_sent fixture_world (send_ota_chunk fixture_world True (\<lambda>b t. 0) (Some 7) 2)
       = [chunk_frame (Some 7) 2 [5]]
   \<and> send_ota_chunk fixture_world True (\<lambda>b t. 0) (Some 7) 3
       = Returned True (fixture_world\<lparr>wire :=
           [[(''type'', JStr ''ota_end''), (''target_node'', jnode (Some 7))]]\<rparr>)
   \<and> map_option concat
        (those (map (\<lambda>k. chunk_data_sent fixture_world
                          (send_ota_chunk fixture_world True (\<lambda>b t. 0) (Some 7) (int k)))
                  [0 ..< 3]))
      = Some [1, 2, 3, 4, 5]"
proof -
  have h1: "ota_sessions fixture_world (Some 7) = Some fixture_session"
    by (simp add: fixture_world_def)
  have h2: "gw_connected fixture_world" and h3: "gw_ser fixture_world"
    by (simp_all add: fixture_world_def)
  have h4: "get_or (chunk_size fixture_session) 1024 = 2"
    by (simp add: fixture_session_def get_or_def)
  have h5: "(0::int) < 2" by simp
  have h6: "firmware_data fixture_session = [1, 2, 3, 4, 5]"
    by (simp add: fixture_session_def)
  note t = chunk_round_trip [OF h1 h2 h3 h4 h5 h6, of "\<lambda>b t. 0"]
  have n: "nat ((int (length [1, 2, 3, 4, 5 :: byte]) + 2 - 1) div 2) = 3" by simp
  have r: "map ((!) [1, 2, 3, 4, 5 :: byte]) [nat (2 * 2) ..< nat (min ((2 + 1) * 2) (int (length [1, 2, 3, 4, 5 :: byte])))] = [5]"
    by (simp add: upt_rec)
  have w: "wire fixture_world = []" by (simp add: fixture_world_def)
  note p2 = t [THEN conjunct2, THEN conjunct1, rule_format, of 2]
  note p3 = t [THEN conjunct2, THEN conjunct2, THEN conjunct1, rule_format, of 3]
  note p4 = t [THEN conjunct2, THEN conjunct2, THEN conjunct2]
  have c1: "frames_sent fixture_world (send_ota_chunk fixture_world True (\<lambda>b t. 0) (Some 7) 2)
       = [chunk_frame (Some 7) 2 [5]]"
    using p2 r by simp
  have c2: "send_ota_chunk fixture_world True (\<lambda>b t. 0) (Some 7) 3
       = Returned True (fixture_world\<lparr>wire :=
           [[(''type'', JStr ''ota_end''), (''target_node'', jnode (Some 7))]]\<rparr>)"
    using p3 w by simp
  have c3: "map_option concat
        (those (map (\<lambda>k. chunk_data_sent fixture_world
                          (send_ota_chunk fixture_world True (\<lambda>b t. 0) (Some 7) (int k)))
                  [0 ..< 3]))
      = Some [1, 2, 3, 4, 5]"
    using p4 unfolding n .
  from h1 h2 h3 h4 h5 c1 c2 c3 show ?thesis by blast
qed

subsection \<open>ota\_result\<close>

lemma update_first_split:
  "\<forall>x \<in> set pre. \<not> P x \<Longrightarrow> P e \<Longrightarrow> update_first P f (pre @ e # post) = pre @ f e # post"
  by (induction pre) simp_all

lemma handle_ota_result_not_ok:
  assumes "get_or (d_ok d) False = False"
  shows "handle_ota_result s ts d =
     Returned ()
       (emit (if ota_sessions s (d_source_node d) \<noteq> None
              then s\<lparr>ota_sessions := (ota_sessions s)(d_source_node d := None)\<rparr> else s)
          (if (case ota_sessions s (d_source_node d) of
                 None \<Rightarrow> False | Some sess \<Rightarrow> get_or (s_auto sess) False)
           then ''auto_ota_complete'' else ''ota_complete'')
          [(''node_id'', jnode (d_source_node d)), (''success'', JBool False),
           (''message'', JStr (get_or (d_msg d) [])),
           (''new_version'', JStr (get_or (d_new_version d) [])),
           (''timestamp'', JStr ts)])"
  using assms by (simp add: handle_ota_result_def Let_def)

text \<open>
  Claim C4. The claim wants an \<^verbatim>\<open>ota_result\<close> with \<^verbatim>\<open>ok\<close> false to mark the node's open
  history entry \<^verbatim>\<open>failed\<close> and to set its \<^verbatim>\<open>completed_at\<close>. The line that would write
  \<^verbatim>\<open>'failed'\<close> sits inside \<^verbatim>\<open>if success and new_version\<close>, so it never runs with
  \<^verbatim>\<open>ok\<close> false. On the small fleet, node 7 has two open entries and a session; the failed
  result deletes the session and emits \<^verbatim>\<open>ota_complete\<close>, and both entries stay
  \<^verbatim>\<open>initiated\<close> without \<^verbatim>\<open>completed_at\<close>.
\<close>

theorem failed_result_history_untouched:
  "handle_ota_result fixture_world ''t1'' (result_frame (Some 7) False []) =
     Returned ()
       (fixture_world
          \<lparr>ota_sessions := Map.empty,
           emitted := [(''ota_complete'',
              [(''node_id'', JInt 7), (''success'', JBool False), (''message'', JStr ''done''),
               (''new_version'', JStr []), (''timestamp'', JStr ''t1'')])]\<rparr>)
   \<and> map h_status (ota_history (outcome_world
         (handle_ota_result fixture_world ''t1'' (result_frame (Some 7) False []))))
       = [''initiated'', ''initiated'']
   \<and> map completed_at (ota_history (outcome_world
         (handle_ota_result fixture_world ''t1'' (result_frame (Some 7) False []))))
       = [None, None]"
  by (simp add: handle_ota_result_def fixture_world_def result_frame_def get_or_def Let_def
      emit_def jnode_def fixture_session_def fixture_entry_def outcome_world_def)

text \<open>
  Claim C5, as stated, fails: with two open entries for node 7, a successful result leaves
  the entry appended last \<^verbatim>\<open>initiated\<close> and completes the one appended first.
\<close>

theorem completion_marks_latest_counterexample:
  "map h_id (ota_history fixture_world) = [1, 2]
   \<and> map h_status (ota_history fixture_world) = [''initiated'', ''initiated'']
   \<and> map h_status (ota_history (outcome_world
         (handle_ota_result fixture_world ''t1'' (result_frame (Some 7) True ''2.1.0''))))
       = [''completed'', ''initiated'']
   \<and> h_status (last (ota_history (outcome_world
         (handle_ota_result fixture_world ''t1'' (result_frame (Some 7) True ''2.1.0'')))))
       \<noteq> ''completed''"
  by (simp add: handle_ota_result_def fixture_world_def result_frame_def get_or_def Let_def
      emit_def jnode_def fixture_session_def fixture_entry_def outcome_world_def fixture_node_def)

text \<open>
  Claim C5, amended. For a node in the registry, an \<^verbatim>\<open>ota_result\<close> with \<^verbatim>\<open>ok\<close> true and
  a non-empty \<^verbatim>\<open>new_version\<close> marks the earliest appended open entry of that node
  \<^verbatim>\<open>completed\<close> and sets its \<^verbatim>\<open>completed_at\<close>; every entry before it and every entry
  after it, open or not, is unchanged.
\<close>

theorem completion_marks_earliest:
  assumes node: "find (\<lambda>n. n_id n = d_source_node d) (nodes s) = Some n0"
    and ok: "d_ok d = Some True"
    and nv: "d_new_version d = Some v" "v \<noteq> []"
    and hist: "ota_history s = pre @ e # post"
    and pre: "\<forall>x \<in> set pre. \<not> (h_node_id x = d_source_node d \<and> h_status x = ''initiated'')"
    and e: "h_node_id e = d_source_node d" "h_status e = ''initiated''"
  shows "\<exists>s'. handle_ota_result s ts d = Returned () s'
           \<and> ota_history s' = pre @ e\<lparr>h_status := ''completed'', completed_at := Some ts\<rparr> # post"
proof -
  have "update_first (\<lambda>x. h_node_id x = d_source_node d \<and> h_status x = ''initiated'')
          (\<lambda>x. x\<lparr>h_status := ''completed'', completed_at := Some ts\<rparr>) (pre @ e # post)
        = pre @ e\<lparr>h_status := ''completed'', completed_at := Some ts\<rparr> # post"
    using pre e by (intro update_first_split) simp_all
  then show ?thesis
    using node ok nv hist
    by (simp add: handle_ota_result_def Let_def get_or_def emit_def)
qed

theorem completion_marks_earliest_witness:
  "find (\<lambda>n. n_id n = Some 7) (nodes fixture_world) = Some fixture_node
   \<and> ota_history fixture_world = [] @ fixture_entry 1 ''2.0.9'' # [fixture_entry 2 ''2.1.0'']
   \<and> (\<exists>s'. handle_ota_result fixture_world ''t1'' (result_frame (Some 7) True ''2.1.0'')
               = Returned () s'
           \<and> ota_history s' =
               [(fixture_entry 1 ''2.0.9'')\<lparr>h_status := ''completed'', completed_at := Some ''t1''\<rparr>,
                fixture_entry 2 ''2.1.0''])"
proof -
  have h1: "find (\<lambda>n. n_id n = d_source_node (result_frame (Some 7) True ''2.1.0''))
              (nodes fixture_world) = Some fixture_node"
    by (simp add: fixture_world_def fixture_node_def result_frame_def)
  have h2: "d_ok (result_frame (Some 7) True ''2.1.0'') = Some True"
    by (simp add: result_frame_def)
  have h3: "d_new_version (result_frame (Some 7) True ''2.1.0'') = Some ''2.1.0''"
    by (simp add: result_frame_def)
  have h4: "''2.1.0'' \<noteq> []" by simp
  have h5: "ota_history fixture_world = [] @ fixture_entry 1 ''2.0.9'' # [fixture_entry 2 ''2.1.0'']"
    by (simp add: fixture_world_def)
  have h6: "\<forall>x \<in> set []. \<not> (h_node_id x = d_source_node (result_frame (Some 7) True ''2.1.0'')
                \<and> h_status x = ''initiated'')"
    by simp
  have h7: "h_node_id (fixture_entry 1 ''2.0.9'') = d_source_node (result_frame (Some 7) True ''2.1.0'')"
    by (simp add: fixture_entry_def result_frame_def)
  have h8: "h_status (fixture_entry 1 ''2.0.9'') = ''initiated''"
    by (simp add: fixture_entry_def)
  from completion_marks_earliest [OF h1 h2 h3 h4 h5 h6 h7 h8, of "''t1''"] h1 h5
  show ?thesis by (simp add: result_frame_def)
qed

text \<open>
  Claim C6, as stated, fails for \<^verbatim>\<open>ota_result\<close>: with no session for node 7, a successful
  result still writes the node's version and status and completes a history entry.
\<close>

theorem stray_result_counterexample:
  "ota_sessions stray_world (Some 7) = None
   \<and> map n_version (nodes stray_world) = [''2.0.0'']
   \<and> map n_status (nodes stray_world) = [''updating'']
   \<and> map h_status (ota_history stray_world) = [''initiated'', ''initiated'']
   \<and> map n_version (nodes (outcome_world
         (handle_ota_result stray_world ''t1'' (result_frame (Some 7) True ''2.1.0''))))
       = [''2.1.0'']
   \<and> map n_status (nodes (outcome_world
         (handle_ota_result stray_world ''t1'' (result_frame (Some 7) True ''2.1.0''))))
       = [''online'']
   \<and> map h_status (ota_history (outcome_world
         (handle_ota_result stray_world ''t1'' (result_frame (Some 7) True ''2.1.0''))))
       = [''completed'', ''initiated'']
   \<and> nodes (outcome_world
         (handle_ota_result stray_world ''t1'' (result_frame (Some 7) True ''2.1.0'')))
       \<noteq> nodes stray_world
   \<and> ota_history (outcome_world
         (handle_ota_result stray_world ''t1'' (result_frame (Some 7) True ''2.1.0'')))
       \<noteq> ota_history stray_world"
  by (simp add: handle_ota_result_def stray_world_def fixture_world_def result_frame_def
      get_or_def Let_def emit_def jnode_def fixture_entry_def outcome_world_def fixture_node_def)

lemma stray_result_update:
  assumes stray: "ota_sessions s (d_source_node d) = None"
    and ok: "get_or (d_ok d) False"
    and nv: "get_or (d_new_version d) [] \<noteq> []"
    and node: "find (\<lambda>n. n_id n = d_source_node d) (nodes s) \<noteq> None"
  shows "handle_ota_result s ts d =
     Returned ()
       (s\<lparr>nodes := update_first (\<lambda>n. n_id n = d_source_node d)
                     (\<lambda>n. n\<lparr>n_version := get_or (d_new_version d) [], n_status := ''online''\<rparr>)
                     (nodes s),
          ota_history := update_first
                     (\<lambda>e. h_node_id e = d_source_node d \<and> h_status e = ''initiated'')
                     (\<lambda>e. e\<lparr>h_status := ''completed'', completed_at := Some ts\<rparr>)
                     (ota_history s),
          emitted := emitted s @
            [(''ota_complete'',
              [(''node_id'', jnode (d_source_node d)), (''success'', JBool True),
               (''message'', JStr (get_or (d_msg d) [])),
               (''new_version'', JStr (get_or (d_new_version d) [])),
               (''timestamp'', JStr ts)])]\<rparr>)"
  using assms by (auto simp: handle_ota_result_def Let_def emit_def)

text \<open>
  Claim C6, amended. For a source node without a session: \<^verbatim>\<open>ota_accept\<close> and
  \<^verbatim>\<open>ota_next\<close> return with the world unchanged; \<^verbatim>\<open>ota_error\<close> only emits the
  \<^verbatim>\<open>ota_error\<close> event; \<^verbatim>\<open>ota_result\<close> returns with the session map and the serial port
  unchanged. When \<^verbatim>\<open>ok\<close> is false, \<^verbatim>\<open>new_version\<close> is empty or the node is not in the
  registry, the registry and the history are unchanged too. When \<^verbatim>\<open>ok\<close> is true,
  \<^verbatim>\<open>new_version\<close> is non-empty and the node is in the registry, the first registry entry
  of that node gets the new version and the status \<^verbatim>\<open>online\<close>, and the first open history
  entry of that node, if there is one, becomes \<^verbatim>\<open>completed\<close> with its \<^verbatim>\<open>completed_at\<close>
  set; all other registry and history entries are unchanged. None of the four raises.
\<close>

theorem stray_messages:
  assumes stray: "ota_sessions s (d_source_node d) = None"
  shows "handle_ota_accept s wr pct d = Returned () s
       \<and> handle_ota_next s wr pct d = Returned () s
       \<and> handle_ota_error s ts d =
           Returned ()
             (s\<lparr>emitted := emitted s @
                  [(''ota_error'',
                    [(''node_id'', jnode (d_source_node d)),
                     (''error'', JStr (get_or (d_message d) ''Unknown error'')),
                     (''timestamp'', JStr ts)])]\<rparr>)
       \<and> (\<exists>s'. handle_ota_result s ts d = Returned () s'
              \<and> ota_sessions s' = ota_sessions s \<and> wire s' = wire s
              \<and> (\<not> (get_or (d_ok d) False \<and> get_or (d_new_version d) [] \<noteq> []
                      \<and> find (\<lambda>n. n_id n = d_source_node d) (nodes s) \<noteq> None)
                   \<longrightarrow> nodes s' = nodes s \<and> ota_history s' = ota_history s)
              \<and> (get_or (d_ok d) False \<and> get_or (d_new_version d) [] \<noteq> []
                      \<and> find (\<lambda>n. n_id n = d_source_node d) (nodes s) \<noteq> None
                   \<longrightarrow> nodes s' =
                         update_first (\<lambda>n. n_id n = d_source_node d)
                           (\<lambda>n. n\<lparr>n_version := get_or (d_new_version d) [],
                                  n_status := ''online''\<rparr>)
                           (nodes s)
                       \<and> ota_history s' =
                         update_first
                           (\<lambda>e. h_node_id e = d_source_node d \<and> h_status e = ''initiated'')
                           (\<lambda>e. e\<lparr>h_status := ''completed'', completed_at := Some ts\<rparr>)
                           (ota_history s)
                       \<and> (\<forall>npre n0 npost.
                             nodes s = npre @ n0 # npost
                             \<and> (\<forall>x \<in> set npre. n_id x \<noteq> d_source_node d)
                             \<and> n_id n0 = d_source_node d \<longrightarrow>
                             nodes s' =
                               npre @ n0\<lparr>n_version := get_or (d_new_version d) [],
                                         n_status := ''online''\<rparr> # npost)
                       \<and> (\<forall>pre e post.
                             ota_history s = pre @ e # post
                             \<and> (\<forall>x \<in> set pre. \<not> (h_node_id x = d_source_node d
                                                    \<and> h_status x = ''initiated''))
                             \<and> h_node_id e = d_source_node d \<and> h_status e = ''initiated'' \<longrightarrow>
                             ota_history s' =
                               pre @ e\<lparr>h_status := ''completed'', completed_at := Some ts\<rparr>
                                 # post)))"
proof (intro conjI)
  show "handle_ota_accept s wr pct d = Returned () s"
    using stray by (simp add: handle_ota_accept_def Let_def)
  show "handle_ota_next s wr pct d = Returned () s"
    using stray by (simp add: handle_ota_next_def Let_def)
  show "handle_ota_error s ts d =
           Returned ()
             (s\<lparr>emitted := emitted s @
                  [(''ota_error'',
                    [(''node_id'', jnode (d_source_node d)),
                     (''error'', JStr (get_or (d_message d) ''Unknown error'')),
                     (''timestamp'', JStr ts)])]\<rparr>)"
    using stray by (simp add: handle_ota_error_def Let_def emit_def)
  let ?cond = "get_or (d_ok d) False \<and> get_or (d_new_version d) [] \<noteq> []
                \<and> find (\<lambda>n. n_id n = d_source_node d) (nodes s) \<noteq> None"
  let ?goal = "\<lambda>s'. handle_ota_result s ts d = Returned () s'
              \<and> ota_sessions s' = ota_sessions s \<and> wire s' = wire s
              \<and> (\<not> ?cond \<longrightarrow> nodes s' = nodes s \<and> ota_history s' = ota_history s)
              \<and> (?cond
                   \<longrightarrow> nodes s' =
                         update_first (\<lambda>n. n_id n = d_source_node d)
                           (\<lambda>n. n\<lparr>n_version := get_or (d_new_version d) [],
                                  n_status := ''online''\<rparr>)
                           (nodes s)
                       \<and> ota_history s' =
                         update_first
                           (\<lambda>e. h_node_id e = d_source_node d \<and> h_status e = ''initiated'')
                           (\<lambda>e. e\<lparr>h_status := ''completed'', completed_at := Some ts\<rparr>)
                           (ota_history s)
                       \<and> (\<forall>npre n0 npost.
                             nodes s = npre @ n0 # npost
                             \<and> (\<forall>x \<in> set npre. n_id x \<noteq> d_source_node d)
                             \<and> n_id n0 = d_source_node d \<longrightarrow>
                             nodes s' =
                               npre @ n0\<lparr>n_version := get_or (d_new_version d) [],
                                         n_status := ''online''\<rparr> # npost)
                       \<and> (\<forall>pre e post.
                             ota_history s = pre @ e # post
                             \<and> (\<forall>x \<in> set pre. \<not> (h_node_id x = d_source_node d
                                                    \<and> h_status x = ''initiated''))
                             \<and> h_node_id e = d_source_node d \<and> h_status e = ''initiated'' \<longrightarrow>
                             ota_history s' =
                               pre @ e\<lparr>h_status := ''completed'', completed_at := Some ts\<rparr>
                                 # post))"
  show "\<exists>s'. ?goal s'"
  proof (cases ?cond)
    case False
    then have "\<exists>s'. handle_ota_result s ts d = Returned () s'
              \<and> ota_sessions s' = ota_sessions s \<and> wire s' = wire s
              \<and> nodes s' = nodes s \<and> ota_history s' = ota_history s"
      using stray
      by (cases "find (\<lambda>n. n_id n = d_source_node d) (nodes s)")
         (auto simp: handle_ota_result_def Let_def emit_def)
    with False show ?thesis by blast
  next
    case True
    then have ok: "get_or (d_ok d) False" and nv: "get_or (d_new_version d) [] \<noteq> []"
      and node: "find (\<lambda>n. n_id n = d_source_node d) (nodes s) \<noteq> None"
      by simp_all
    note u = stray_result_update [OF stray ok nv node, of ts]
    have "?goal (s\<lparr>nodes := update_first (\<lambda>n. n_id n = d_source_node d)
                     (\<lambda>n. n\<lparr>n_version := get_or (d_new_version d) [], n_status := ''online''\<rparr>)
                     (nodes s),
          ota_history := update_first
                     (\<lambda>e. h_node_id e = d_source_node d \<and> h_status e = ''initiated'')
                     (\<lambda>e. e\<lparr>h_status := ''completed'', completed_at := Some ts\<rparr>)
                     (ota_history s),
          emitted := emitted s @
            [(''ota_complete'',
              [(''node_id'', jnode (d_source_node d)), (''success'', JBool True),
               (''message'', JStr (get_or (d_msg d) [])),
               (''new_version'', JStr (get_or (d_new_version d) [])),
               (''timestamp'', JStr ts)])]\<rparr>)"
      using True u by (auto simp: update_first_split)
    then show ?thesis by blast
  qed
qed

theorem stray_messages_witness:
  "ota_sessions stray_world (Some 7) = None
   \<and> handle_ota_accept stray_world True (\<lambda>b t. 0) (accept_frame (Some 7) None)
       = Returned () stray_world
   \<and> handle_ota_next stray_world True (\<lambda>b t. 0) (accept_frame (Some 7) (Some 1))
       = Returned () stray_world
   \<and> handle_ota_error stray_world ''t1'' (accept_frame (Some 7) None)
       = Returned ()
           (stray_world\<lparr>emitted :=
              [(''ota_error'', [(''node_id'', JInt 7), (''error'', JStr ''Unknown error''),
                               (''timestamp'', JStr ''t1'')])]\<rparr>)
   \<and> (\<exists>s'. handle_ota_result stray_world ''t1'' (result_frame (Some 7) False []) = Returned () s'
          \<and> ota_sessions s' = ota_sessions stray_world \<and> wire s' = wire stray_world
          \<and> nodes s' = nodes stray_world \<and> ota_history s' = ota_history stray_world)
   \<and> (\<exists>s'. handle_ota_result stray_world ''t1'' (result_frame (Some 7) True ''2.1.0'')
              = Returned () s'
          \<and> ota_sessions s' = ota_sessions stray_world \<and> wire s' = wire stray_world
          \<and> nodes s' = [fixture_node\<lparr>n_version := ''2.1.0'', n_status := ''online''\<rparr>]
          \<and> ota_history s' =
               [(fixture_entry 1 ''2.0.9'')\<lparr>h_status := ''completed'', completed_at := Some ''t1''\<rparr>,
                fixture_entry 2 ''2.1.0''])"
proof -
  let ?ok = "result_frame (Some 7) True ''2.1.0''"
  have h: "ota_sessions stray_world (Some 7) = None"
    by (simp add: stray_world_def)
  have ha: "ota_sessions stray_world (d_source_node (accept_frame (Some 7) i)) = None" for i
    by (simp add: stray_world_def accept_frame_def)
  have hr: "ota_sessions stray_world (d_source_node (result_frame (Some 7) b v)) = None" for b v
    by (simp add: stray_world_def result_frame_def)
  have e: "emitted stray_world = []"
    by (simp add: stray_world_def fixture_world_def)
  have nok: "\<not> (get_or (d_ok (result_frame (Some 7) False [])) False
               \<and> get_or (d_new_version (result_frame (Some 7) False [])) [] \<noteq> []
               \<and> find (\<lambda>n. n_id n = d_source_node (result_frame (Some 7) False []))
                    (nodes stray_world) \<noteq> None)"
    by (simp add: result_frame_def get_or_def)
  have yes: "get_or (d_ok ?ok) False \<and> get_or (d_new_version ?ok) [] \<noteq> []
               \<and> find (\<lambda>n. n_id n = d_source_node ?ok) (nodes stray_world) \<noteq> None"
    by (simp add: result_frame_def get_or_def stray_world_def fixture_world_def fixture_node_def)
  have nsplit: "nodes stray_world = [] @ fixture_node # []
                \<and> (\<forall>x \<in> set []. n_id x \<noteq> d_source_node ?ok)
                \<and> n_id fixture_node = d_source_node ?ok"
    by (simp add: stray_world_def fixture_world_def fixture_node_def result_frame_def)
  have hsplit: "ota_history stray_world = [] @ fixture_entry 1 ''2.0.9'' # [fixture_entry 2 ''2.1.0'']
                \<and> (\<forall>x \<in> set []. \<not> (h_node_id x = d_source_node ?ok \<and> h_status x = ''initiated''))
                \<and> h_node_id (fixture_entry 1 ''2.0.9'') = d_source_node ?ok
                \<and> h_status (fixture_entry 1 ''2.0.9'') = ''initiated''"
    by (simp add: stray_world_def fixture_world_def fixture_entry_def result_frame_def)
  have nv: "get_or (d_new_version ?ok) [] = ''2.1.0''"
    by (simp add: result_frame_def get_or_def)
  note a = stray_messages [OF ha [of None], where wr = True and pct = "\<lambda>b t. 0" and ts = "''t1''"]
  note n = stray_messages [OF ha [of "Some 1"], where wr = True and pct = "\<lambda>b t. 0" and ts = "''t1''"]
  note r = stray_messages [OF hr [of False "[]"], where wr = True and pct = "\<lambda>b t. 0" and ts = "''t1''"]
  note y = stray_messages [OF hr [of True "''2.1.0''"], where wr = True and pct = "\<lambda>b t. 0" and ts = "''t1''"]
  have c1: "handle_ota_accept stray_world True (\<lambda>b t. 0) (accept_frame (Some 7) None)
       = Returned () stray_world"
    using a by blast
  have c2: "handle_ota_next stray_world True (\<lambda>b t. 0) (accept_frame (Some 7) (Some 1))
       = Returned () stray_world"
    using n by blast
  have c3: "handle_ota_error stray_world ''t1'' (accept_frame (Some 7) None)
       = Returned ()
           (stray_world\<lparr>emitted :=
              [(''ota_error'', [(''node_id'', JInt 7), (''error'', JStr ''Unknown error''),
                               (''timestamp'', JStr ''t1'')])]\<rparr>)"
    using a [THEN conjunct2, THEN conjunct2, THEN conjunct1] e
    by (simp add: accept_frame_def get_or_def jnode_def)
  have c4: "\<exists>s'. handle_ota_result stray_world ''t1'' (result_frame (Some 7) False []) = Returned () s'
          \<and> ota_sessions s' = ota_sessions stray_world \<and> wire s' = wire stray_world
          \<and> nodes s' = nodes stray_world \<and> ota_history s' = ota_history stray_world"
    using r [THEN conjunct2, THEN conjunct2, THEN conjunct2] nok by blast
  from y [THEN conjunct2, THEN conjunct2, THEN conjunct2]
  obtain s' where s': "handle_ota_result stray_world ''t1'' ?ok = Returned () s'"
      "ota_sessions s' = ota_sessions stray_world" "wire s' = wire stray_world"
    and pos: "\<forall>npre n0 npost.
                 nodes stray_world = npre @ n0 # npost
                 \<and> (\<forall>x \<in> set npre. n_id x \<noteq> d_source_node ?ok)
                 \<and> n_id n0 = d_source_node ?ok \<longrightarrow>
                 nodes s' = npre @ n0\<lparr>n_version := get_or (d_new_version ?ok) [],
                                       n_status := ''online''\<rparr> # npost"
      "\<forall>pre e post.
                 ota_history stray_world = pre @ e # post
                 \<and> (\<forall>x \<in> set pre. \<not> (h_node_id x = d_source_node ?ok
                                        \<and> h_status x = ''initiated''))
                 \<and> h_node_id e = d_source_node ?ok \<and> h_status e = ''initiated'' \<longrightarrow>
                 ota_history s' =
                   pre @ e\<lparr>h_status := ''completed'', completed_at := Some ''t1''\<rparr> # post"
    using yes by blast
  have n': "nodes s' = [fixture_node\<lparr>n_version := ''2.1.0'', n_status := ''online''\<rparr>]"
    using pos(1) [rule_format, OF nsplit] nv by simp
  have h': "ota_history s' =
               [(fixture_entry 1 ''2.0.9'')\<lparr>h_status := ''completed'', completed_at := Some ''t1''\<rparr>,
                fixture_entry 2 ''2.1.0'']"
    using pos(2) [rule_format, OF hsplit] by simp
  have c5: "\<exists>s'. handle_ota_result stray_world ''t1'' ?ok = Returned () s'
          \<and> ota_sessions s' = ota_sessions stray_world \<and> wire s' = wire stray_world
          \<and> nodes s' = [fixture_node\<lparr>n_version := ''2.1.0'', n_status := ''online''\<rparr>]
          \<and> ota_history s' =
               [(fixture_entry 1 ''2.0.9'')\<lparr>h_status := ''completed'', completed_at := Some ''t1''\<rparr>,
                fixture_entry 2 ''2.1.0'']"
    using s' n' h' by blast
  from h c1 c2 c3 c4 c5 show ?thesis by blast
qed

text \<open>
  Claim C10. An \<^verbatim>\<open>ota_result\<close> with \<^verbatim>\<open>ok\<close> true and a non-empty \<^verbatim>\<open>new_version\<close> from a
  node id that is not in the registry leaves the registry and the history as they are, removes
  the session of that id when there is one, and emits the completion event.
\<close>

theorem result_for_unknown_node:
  assumes absent: "find (\<lambda>n. n_id n = d_source_node d) (nodes s) = None"
    and ok: "d_ok d = Some True"
    and nv: "d_new_version d = Some v" "v \<noteq> []"
  shows "\<exists>s'. handle_ota_result s ts d = Returned () s'
           \<and> nodes s' = nodes s
           \<and> ota_history s' = ota_history s
           \<and> ota_sessions s' = (ota_sessions s)(d_source_node d := None)
           \<and> emitted s' = emitted s @
                [(if (case ota_sessions s (d_source_node d) of
                        None \<Rightarrow> False | Some sess \<Rightarrow> get_or (s_auto sess) False)
                  then ''auto_ota_complete'' else ''ota_complete'',
                  [(''node_id'', jnode (d_source_node d)), (''success'', JBool True),
                   (''message'', JStr (get_or (d_msg d) [])), (''new_version'', JStr v),
                   (''timestamp'', JStr ts)])]"
proof (cases "ota_sessions s (d_source_node d)")
  case None
  then have "(ota_sessions s)(d_source_node d := None) = ota_sessions s" by auto
  with None show ?thesis
    using absent ok nv by (simp add: handle_ota_result_def Let_def emit_def get_or_def)
next
  case (Some sess)
  then show ?thesis
    using absent ok nv by (simp add: handle_ota_result_def Let_def emit_def get_or_def)
qed

theorem result_for_unknown_node_witness:
  "find (\<lambda>n. n_id n = Some 7) (nodes unknown_world) = None
   \<and> ota_sessions unknown_world (Some 7) = Some fixture_session
   \<and> (\<exists>s'. handle_ota_result unknown_world ''t1'' (result_frame (Some 7) True ''2.1.0'')
               = Returned () s'
          \<and> nodes s' = []
          \<and> ota_history s' = ota_history unknown_world
          \<and> ota_sessions s' (Some 7) = None
          \<and> emitted s' =
               [(''ota_complete'',
                 [(''node_id'', JInt 7), (''success'', JBool True), (''message'', JStr ''done''),
                  (''new_version'', JStr ''2.1.0''), (''timestamp'', JStr ''t1'')])])"
proof -
  have h1: "find (\<lambda>n. n_id n = d_source_node (result_frame (Some 7) True ''2.1.0''))
              (nodes unknown_world) = None"
    by (simp add: unknown_world_def)
  have h2: "d_ok (result_frame (Some 7) True ''2.1.0'') = Some True"
    by (simp add: result_frame_def)
  have h3: "d_new_version (result_frame (Some 7) True ''2.1.0'') = Some ''2.1.0''"
    by (simp add: result_frame_def)
  have h4: "''2.1.0'' \<noteq> []" by simp
  have k1: "find (\<lambda>n. n_id n = Some 7) (nodes unknown_world) = None"
    by (simp add: unknown_world_def)
  have k2: "ota_sessions unknown_world (Some 7) = Some fixture_session"
    by (simp add: unknown_world_def fixture_world_def)
  have k3: "emitted unknown_world = []" "nodes unknown_world = []"
    by (simp_all add: unknown_world_def fixture_world_def)
  have k4: "get_or (s_auto fixture_session) False = False"
    by (simp add: fixture_session_def get_or_def)
  have k5: "d_source_node (result_frame (Some 7) True ''2.1.0'') = Some 7"
    "get_or (d_msg (result_frame (Some 7) True ''2.1.0'')) [] = ''done''"
    by (simp_all add: result_frame_def get_or_def)
  from result_for_unknown_node [OF h1 h2 h3 h4, of "''t1''"]
  obtain s' where s': "handle_ota_result unknown_world ''t1'' (result_frame (Some 7) True ''2.1.0'')
               = Returned () s'"
      "nodes s' = nodes unknown_world" "ota_history s' = ota_history unknown_world"
      "ota_sessions s' = (ota_sessions unknown_world)(Some 7 := None)"
      "emitted s' = [(''ota_complete'',
                 [(''node_id'', JInt 7), (''success'', JBool True), (''message'', JStr ''done''),
                  (''new_version'', JStr ''2.1.0''), (''timestamp'', JStr ''t1'')])]"
    unfolding k5 by (auto simp: k2 k3 k4 jnode_def)
  then show ?thesis using k1 k2 k3 by auto
qed

subsection \<open>The auto-OTA policy\<close>

lemma fetch_manifest_keeps:
  "nodes (snd (fetch_manifest s env)) = nodes s"
  "ota_history (snd (fetch_manifest s env)) = ota_history s"
  "ota_sessions (snd (fetch_manifest s env)) = ota_sessions s"
  "last_auto_ota (snd (fetch_manifest s env)) = last_auto_ota s"
  "threads (snd (fetch_manifest s env)) = threads s"
  by (simp_all add: fetch_manifest_def split: option.splits)

lemma get_firmware_url_world:
  "snd (get_firmware_url_for_role s env role) = snd (fetch_manifest s env)"
  by (simp add: get_firmware_url_for_role_def Let_def split: prod.splits option.splits)

lemma get_firmware_url_keeps:
  "nodes (snd (get_firmware_url_for_role s env role)) = nodes s"
  "ota_history (snd (get_firmware_url_for_role s env role)) = ota_history s"
  "ota_sessions (snd (get_firmware_url_for_role s env role)) = ota_sessions s"
  "last_auto_ota (snd (get_firmware_url_for_role s env role)) = last_auto_ota s"
  "threads (snd (get_firmware_url_for_role s env role)) = threads s"
  by (simp_all only: get_firmware_url_world fetch_manifest_keeps)

text \<open>
  Claim C7, as stated, fails: node 7 is not in cooldown, the manifest cannot be fetched, and
  after the handler the cooldown table still has no entry for node 7.
\<close>

theorem no_manifest_cooldown_counterexample:
  "AUTO_OTA_ENABLED fixture_world
   \<and> \<not> (t_check offline_env - get_or (last_auto_ota fixture_world (Some 7)) 0 < AUTO_OTA_COOLDOWN)
   \<and> fst (get_firmware_url_for_role fixture_world offline_env ''sensor'') = (None, None, None)
   \<and> last_auto_ota (handle_ota_check_auto fixture_world offline_env check_frame) (Some 7) = None"
  by (simp add: handle_ota_check_auto_def get_firmware_url_for_role_def fetch_manifest_def
      fixture_world_def offline_env_def check_frame_def get_or_def AUTO_OTA_COOLDOWN_def
      truthy_def Let_def)

text \<open>
  Claim C7, amended. When the lookup gives no firmware URL for the node's role (the manifest
  cannot be fetched, or has no asset for the role), the handler returns at that guard: no
  session and no history entry are created, no worker is started, the registry is unchanged,
  and the cooldown table is unchanged, so no cooldown timestamp is recorded for the node.
\<close>

theorem no_manifest_no_effect:
  assumes "\<not> truthy (fst (fst (get_firmware_url_for_role s env (get_or (d_role d) []))))"
  shows "ota_sessions (handle_ota_check_auto s env d) = ota_sessions s
       \<and> ota_history (handle_ota_check_auto s env d) = ota_history s
       \<and> threads (handle_ota_check_auto s env d) = threads s
       \<and> nodes (handle_ota_check_auto s env d) = nodes s
       \<and> last_auto_ota (handle_ota_check_auto s env d) = last_auto_ota s"
proof -
  define r where "r = get_firmware_url_for_role s env (get_or (d_role d) [])"
  obtain u h v s1 where r: "r = ((u, h, v), s1)" by (metis prod.exhaust)
  have nu: "\<not> truthy u" using assms r by (simp add: r_def)
  have s1: "s1 = snd r" using r by simp
  have out: "handle_ota_check_auto s env d = s \<or> handle_ota_check_auto s env d = s1"
    using r nu unfolding handle_ota_check_auto_def Let_def r_def [symmetric]
    by simp
  have keep: "ota_sessions s1 = ota_sessions s" "ota_history s1 = ota_history s"
    "threads s1 = threads s" "nodes s1 = nodes s" "last_auto_ota s1 = last_auto_ota s"
    unfolding s1 r_def by (simp_all only: get_firmware_url_keeps)
  from out keep show ?thesis by auto
qed

theorem no_manifest_no_effect_witness:
  "\<not> truthy (fst (fst (get_firmware_url_for_role fixture_world offline_env ''sensor'')))
   \<and> ota_sessions (handle_ota_check_auto fixture_world offline_env check_frame)
       = ota_sessions fixture_world
   \<and> ota_history (handle_ota_check_auto fixture_world offline_env check_frame)
       = ota_history fixture_world
   \<and> threads (handle_ota_check_auto fixture_world offline_env check_frame) = []
   \<and> last_auto_ota (handle_ota_check_auto fixture_world offline_env check_frame) (Some 7) = None"
proof -
  have r: "get_or (d_role check_frame) [] = ''sensor''"
    by (simp add: check_frame_def get_or_def)
  have h: "\<not> truthy (fst (fst (get_firmware_url_for_role fixture_world offline_env
                                   (get_or (d_role check_frame) []))))"
    unfolding r
    by (simp add: get_firmware_url_for_role_def fetch_manifest_def fixture_world_def
        offline_env_def truthy_def)
  have t: "threads fixture_world = []" "last_auto_ota fixture_world (Some 7) = None"
    by (simp_all add: fixture_world_def)
  from no_manifest_no_effect [OF h] h t show ?thesis
    unfolding r by simp
qed

subsection \<open>The worker's temporary file\<close>

lemma download_complete:
  assumes "w_download env = Streamed clen chunks None"
    and "(case clen of None \<Rightarrow> Some 0 | Some h \<Rightarrow> py_int h) = Some n"
  shows "download_to_temp s env = Inr (s\<lparr>files := (files s)(w_temp_path env \<mapsto> concat chunks)\<rparr>)"
  using assms by (simp add: download_to_temp_def Let_def)

lemma send_auto_offer_files:
  "files s (w_temp_path env) = Some fw \<Longrightarrow>
   files (send_auto_offer s env job) = (files s)(w_temp_path env := None)"
  by (simp add: send_auto_offer_def Let_def send_command_def emit_def log_event_def
      split: prod.splits)

lemma send_auto_offer_sessions:
  "files s (w_temp_path env) = Some fw \<Longrightarrow>
   ota_sessions (send_auto_offer s env job) =
     (ota_sessions s)(j_node_id job :=
        (if gw_connected s \<and> gw_ser s \<and> w_wr env then
           Some \<lparr>firmware_data = fw, s_version = j_version job, s_size = int (length fw),
                 chunk_size = Some 1024, started_at = w_now env,
                 s_node_name = j_node_name job, s_auto = Some True\<rparr>
         else None))"
  by (auto simp: send_auto_offer_def Let_def send_command_def emit_def log_event_def
      split: prod.splits)

text \<open>
  Once the download has completed, every way out of the worker removes the temporary file:
  the digest error, the mismatch, and the \<^verbatim>\<open>finally\<close> after the offer.
\<close>

lemma worker_removes_temp_after_download:
  assumes dl: "w_download env = Streamed clen chunks None"
    and cl: "(case clen of None \<Rightarrow> Some 0 | Some h \<Rightarrow> py_int h) = Some n"
  shows "files (outcome_world (auto_ota_worker s env job)) (w_temp_path env) = None"
proof -
  define s0 where "s0 = emit s ''auto_ota_started''
                 [(''node_id'', jnode (j_node_id job)), (''node_name'', JStr (j_node_name job)),
                  (''version'', jstr_opt (j_version job)), (''timestamp'', JStr (w_now env))]"
  define s1 where "s1 = s0\<lparr>files := (files s0)(w_temp_path env \<mapsto> concat chunks)\<rparr>"
  have d: "download_to_temp s0 env = Inr s1"
    unfolding s1_def by (rule download_complete [OF dl cl])
  have f: "files s1 (w_temp_path env) = Some (concat chunks)" by (simp add: s1_def)
  have rm: "os_remove s1 (w_temp_path env)
            = Returned () (s1\<lparr>files := (files s1)(w_temp_path env := None)\<rparr>)"
    using f by (simp add: os_remove_def)
  have so: "files (send_auto_offer s1 env job) (w_temp_path env) = None"
    using send_auto_offer_files [OF f, of job] by simp
  show ?thesis
    unfolding auto_ota_worker_def Let_def s0_def [symmetric] d
    using f rm so by (simp add: outcome_world_def emit_def Let_def)
qed

text \<open>
  Claim C8. The claim wants the temporary file removed on every way out of the worker,
  a download that breaks while the body is streamed included. The \<^verbatim>\<open>except\<close> of the
  download block emits \<^verbatim>\<open>auto_ota_failed\<close> and returns without \<^verbatim>\<open>os.remove\<close>, which
  the digest error, the mismatch and the final block all call. Here the stream breaks after
  the chunk \<open>[1, 2]\<close>: the worker returns, and the file is still there with these two bytes.
\<close>

theorem broken_download_leaves_temp:
  "files fixture_world ''/tmp/auto_ota_1.bin'' = None
   \<and> auto_ota_worker fixture_world
       (fixture_worker_env (Streamed (Some ''5'') [[1, 2]] (Some ''connection broken'')) False True)
       fixture_job
     = Returned ()
         (fixture_world
            \<lparr>emitted :=
               [(''auto_ota_started'',
                 [(''node_id'', JInt 7), (''node_name'', JStr ''Node_7''),
                  (''version'', JStr ''3.0.0''), (''timestamp'', JStr ''t1'')]),
                (''auto_ota_failed'',
                 [(''node_id'', JInt 7),
                  (''error'', JStr ''Download failed: connection broken''),
                  (''timestamp'', JStr ''t1'')])],
             files := (files fixture_world)(''/tmp/auto_ota_1.bin'' \<mapsto> [1, 2])\<rparr>)
   \<and> files (outcome_world (auto_ota_worker fixture_world
       (fixture_worker_env (Streamed (Some ''5'') [[1, 2]] (Some ''connection broken'')) False True)
       fixture_job)) ''/tmp/auto_ota_1.bin'' = Some [1, 2]"
proof -
  have p: "py_int ''5'' = Some 5" by code_simp
  have f: "files fixture_world ''/tmp/auto_ota_1.bin'' = None"
    by (simp add: fixture_world_def)
  have w: "auto_ota_worker fixture_world
       (fixture_worker_env (Streamed (Some ''5'') [[1, 2]] (Some ''connection broken'')) False True)
       fixture_job
     = Returned ()
         (fixture_world
            \<lparr>emitted :=
               [(''auto_ota_started'',
                 [(''node_id'', JInt 7), (''node_name'', JStr ''Node_7''),
                  (''version'', JStr ''3.0.0''), (''timestamp'', JStr ''t1'')]),
                (''auto_ota_failed'',
                 [(''node_id'', JInt 7),
                  (''error'', JStr ''Download failed: connection broken''),
                  (''timestamp'', JStr ''t1'')])],
             files := (files fixture_world)(''/tmp/auto_ota_1.bin'' \<mapsto> [1, 2])\<rparr>)"
    by (simp add: auto_ota_worker_def download_to_temp_def fixture_worker_env_def
        fixture_job_def p Let_def emit_def jnode_def jstr_opt_def fixture_world_def)
  show ?thesis
    unfolding w using f by (simp add: outcome_world_def)
qed

text \<open>
  Claim C9. After a completed download and with a digest given, an exception while the
  digest is computed makes the worker remove the temporary file and return: the session map,
  the history and the serial port are as before, and the only event of the run is
  \<^verbatim>\<open>auto_ota_started\<close>. A digest that differs goes the same way but emits
  \<^verbatim>\<open>auto_ota_failed\<close> after removing the file.
\<close>

theorem digest_error_is_silent:
  assumes dl: "w_download env = Streamed clen chunks None"
    and cl: "(case clen of None \<Rightarrow> Some 0 | Some h \<Rightarrow> py_int h) = Some n"
    and sha: "truthy (j_sha256_hash job)"
  shows "(w_sha_raises env \<longrightarrow>
            (\<exists>s'. auto_ota_worker s env job = Returned () s'
               \<and> files s' (w_temp_path env) = None
               \<and> ota_sessions s' = ota_sessions s
               \<and> ota_history s' = ota_history s
               \<and> wire s' = wire s
               \<and> emitted s' = emitted s @
                    [(''auto_ota_started'',
                      [(''node_id'', jnode (j_node_id job)),
                       (''node_name'', JStr (j_node_name job)),
                       (''version'', jstr_opt (j_version job)),
                       (''timestamp'', JStr (w_now env))])]))
       \<and> (\<not> w_sha_raises env
            \<and> lower (w_sha256 env (concat chunks)) \<noteq> lower (get_or (j_sha256_hash job) []) \<longrightarrow>
            (\<exists>s'. auto_ota_worker s env job = Returned () s'
               \<and> files s' (w_temp_path env) = None
               \<and> ota_sessions s' = ota_sessions s
               \<and> emitted s' = emitted s @
                    [(''auto_ota_started'',
                      [(''node_id'', jnode (j_node_id job)),
                       (''node_name'', JStr (j_node_name job)),
                       (''version'', jstr_opt (j_version job)),
                       (''timestamp'', JStr (w_now env))]),
                     (''auto_ota_failed'',
                      [(''node_id'', jnode (j_node_id job)),
                       (''error'', JStr ''SHA256 verification failed''),
                       (''timestamp'', JStr (w_now env))])]))"
proof -
  define s0 where "s0 = emit s ''auto_ota_started''
                 [(''node_id'', jnode (j_node_id job)), (''node_name'', JStr (j_node_name job)),
                  (''version'', jstr_opt (j_version job)), (''timestamp'', JStr (w_now env))]"
  define s1 where "s1 = s0\<lparr>files := (files s0)(w_temp_path env \<mapsto> concat chunks)\<rparr>"
  have d: "download_to_temp s0 env = Inr s1"
    unfolding s1_def by (rule download_complete [OF dl cl])
  have f: "files s1 (w_temp_path env) = Some (concat chunks)" by (simp add: s1_def)
  have rm: "os_remove s1 (w_temp_path env)
            = Returned () (s1\<lparr>files := (files s1)(w_temp_path env := None)\<rparr>)"
    using f by (simp add: os_remove_def)
  have w: "auto_ota_worker s env job =
     (case (if w_sha_raises env then None else files s1 (w_temp_path env)) of
        None \<Rightarrow> os_remove s1 (w_temp_path env)
      | Some content \<Rightarrow>
          (let got = lower (w_sha256 env content);
               expected = lower (get_or (j_sha256_hash job) [])
           in if got \<noteq> expected then
                (case os_remove s1 (w_temp_path env) of
                   Raised x s2 \<Rightarrow> Raised x s2
                 | Returned _ s2 \<Rightarrow>
                     Returned ()
                       (emit s2 ''auto_ota_failed''
                          [(''node_id'', jnode (j_node_id job)),
                           (''error'', JStr ''SHA256 verification failed''),
                           (''timestamp'', JStr (w_now env))]))
              else Returned () (send_auto_offer s1 env job)))"
    unfolding auto_ota_worker_def Let_def s0_def [symmetric] d
    using sha by simp
  show ?thesis
  proof (intro conjI impI)
    assume "w_sha_raises env"
    then have "auto_ota_worker s env job
               = Returned () (s1\<lparr>files := (files s1)(w_temp_path env := None)\<rparr>)"
      unfolding w rm by simp
    then show "\<exists>s'. auto_ota_worker s env job = Returned () s'
               \<and> files s' (w_temp_path env) = None
               \<and> ota_sessions s' = ota_sessions s
               \<and> ota_history s' = ota_history s
               \<and> wire s' = wire s
               \<and> emitted s' = emitted s @
                    [(''auto_ota_started'',
                      [(''node_id'', jnode (j_node_id job)),
                       (''node_name'', JStr (j_node_name job)),
                       (''version'', jstr_opt (j_version job)),
                       (''timestamp'', JStr (w_now env))])]"
      by (simp add: s1_def s0_def emit_def)
  next
    assume "\<not> w_sha_raises env
            \<and> lower (w_sha256 env (concat chunks)) \<noteq> lower (get_or (j_sha256_hash job) [])"
    then have "auto_ota_worker s env job
               = Returned ()
                   (emit (s1\<lparr>files := (files s1)(w_temp_path env := None)\<rparr>) ''auto_ota_failed''
                      [(''node_id'', jnode (j_node_id job)),
                       (''error'', JStr ''SHA256 verification failed''),
                       (''timestamp'', JStr (w_now env))])"
      unfolding w rm using f by (simp add: Let_def)
    then show "\<exists>s'. auto_ota_worker s env job = Returned () s'
               \<and> files s' (w_temp_path env) = None
               \<and> ota_sessions s' = ota_sessions s
               \<and> emitted s' = emitted s @
                    [(''auto_ota_started'',
                      [(''node_id'', jnode (j_node_id job)),
                       (''node_name'', JStr (j_node_name job)),
                       (''version'', jstr_opt (j_version job)),
                       (''timestamp'', JStr (w_now env))]),
                     (''auto_ota_failed'',
                      [(''node_id'', jnode (j_node_id job)),
                       (''error'', JStr ''SHA256 verification failed''),
                       (''timestamp'', JStr (w_now env))])]"
      by (simp add: s1_def s0_def emit_def)
  qed
qed

theorem digest_error_is_silent_witness:
  "truthy (j_sha256_hash fixture_job)
   \<and> (\<exists>s'. auto_ota_worker fixture_world
               (fixture_worker_env (Streamed (Some ''3'') [[1, 2], [3]] None) True True)
               fixture_job = Returned () s'
          \<and> files s' ''/tmp/auto_ota_1.bin'' = None
          \<and> ota_sessions s' = ota_sessions fixture_world
          \<and> map fst (emitted s') = [''auto_ota_started''])
   \<and> (\<exists>s'. auto_ota_worker fixture_world
               (fixture_worker_env (Streamed (Some ''3'') [[1, 2], [3]] None) False True)
               (fixture_job\<lparr>j_sha256_hash := Some ''CD''\<rparr>) = Returned () s'
          \<and> files s' ''/tmp/auto_ota_1.bin'' = None
          \<and> ota_sessions s' = ota_sessions fixture_world
          \<and> map fst (emitted s') = [''auto_ota_started'', ''auto_ota_failed''])"
proof -
  let ?dl = "Streamed (Some ''3'') [[1, 2], [3]] None"
  have p: "py_int ''3'' = Some 3" by code_simp
  have lw: "lower ''ab'' = ''ab''" "lower ''CD'' = ''cd''" by code_simp+
  have e: "emitted fixture_world = []" by (simp add: fixture_world_def)
  have dl: "w_download (fixture_worker_env ?dl b True) = ?dl" for b
    by (simp add: fixture_worker_env_def)
  have cl: "(case Some ''3'' of None \<Rightarrow> Some 0 | Some h \<Rightarrow> py_int h) = Some 3"
    by (simp add: p)
  have sha1: "truthy (j_sha256_hash fixture_job)"
    by (simp add: fixture_job_def truthy_def)
  have sha2: "truthy (j_sha256_hash (fixture_job\<lparr>j_sha256_hash := Some ''CD''\<rparr>))"
    by (simp add: truthy_def)
  have r1: "w_sha_raises (fixture_worker_env ?dl True True)"
    by (simp add: fixture_worker_env_def)
  have r2: "\<not> w_sha_raises (fixture_worker_env ?dl False True)
            \<and> lower (w_sha256 (fixture_worker_env ?dl False True) (concat [[1, 2], [3]]))
               \<noteq> lower (get_or (j_sha256_hash (fixture_job\<lparr>j_sha256_hash := Some ''CD''\<rparr>)) [])"
    by (simp add: fixture_worker_env_def get_or_def lw)
  have tp: "w_temp_path (fixture_worker_env ?dl b True) = ''/tmp/auto_ota_1.bin''" for b
    by (simp add: fixture_worker_env_def)
  from digest_error_is_silent [OF dl cl sha1, of True fixture_world, THEN conjunct1, rule_format, OF r1]
  have c1: "\<exists>s'. auto_ota_worker fixture_world (fixture_worker_env ?dl True True) fixture_job
                 = Returned () s'
          \<and> files s' ''/tmp/auto_ota_1.bin'' = None
          \<and> ota_sessions s' = ota_sessions fixture_world
          \<and> map fst (emitted s') = [''auto_ota_started'']"
    unfolding tp e by auto
  from digest_error_is_silent [OF dl cl sha2, of False fixture_world, THEN conjunct2, rule_format, OF r2]
  have c2: "\<exists>s'. auto_ota_worker fixture_world (fixture_worker_env ?dl False True)
                 (fixture_job\<lparr>j_sha256_hash := Some ''CD''\<rparr>) = Returned () s'
          \<and> files s' ''/tmp/auto_ota_1.bin'' = None
          \<and> ota_sessions s' = ota_sessions fixture_world
          \<and> map fst (emitted s') = [''auto_ota_started'', ''auto_ota_failed'']"
    unfolding tp e by auto
  from sha1 c1 c2 show ?thesis by blast
qed

subsection \<open>Triggers and the session map\<close>

text \<open>
  Claim C3, as stated, fails: node 7 has a session with firmware \<open>[1, 2, 3, 4, 5]\<close> and
  version 2.1.0. A manual trigger for node 7 puts a session with firmware \<open>[9, 8, 7]\<close> and
  version 3.0.0 in its place, and a manual trigger whose offer cannot be written leaves
  node 7 without any session.
\<close>

theorem second_trigger_counterexample:
  "map_option firmware_data (ota_sessions fixture_world (Some 7)) = Some [1, 2, 3, 4, 5]
   \<and> map_option s_version (ota_sessions fixture_world (Some 7)) = Some (Some ''2.1.0'')
   \<and> map_option firmware_data
        (ota_sessions (snd (ota_update_core fixture_world True ''t1'' (Some 7) ''3.0.0''
                              ''firmware_uploads/fw.bin'' ''admin'')) (Some 7))
       = Some [9, 8, 7]
   \<and> map_option s_version
        (ota_sessions (snd (ota_update_core fixture_world True ''t1'' (Some 7) ''3.0.0''
                              ''firmware_uploads/fw.bin'' ''admin'')) (Some 7))
       = Some (Some ''3.0.0'')
   \<and> ota_sessions (snd (ota_update_core fixture_world False ''t1'' (Some 7) ''3.0.0''
                              ''firmware_uploads/fw.bin'' ''admin'')) (Some 7)
       = None"
  by (simp add: ota_update_core_def fixture_world_def fixture_session_def fixture_node_def
      send_command_def Let_def emit_def log_event_def)

lemma ota_update_core_sessions:
  assumes "files s path = Some fw"
    and "find (\<lambda>n. n_id n = Some k) (nodes s) = Some node"
    and "gw_connected s"
  shows "ota_sessions (snd (ota_update_core s wr ts (Some k) version path who)) =
     (ota_sessions s)(Some k :=
        (if gw_ser s \<and> wr then
           Some \<lparr>firmware_data = fw, s_version = Some version, s_size = int (length fw),
                 chunk_size = Some 1024, started_at = ts, s_node_name = n_name node,
                 s_auto = Some False\<rparr>
         else None))"
  using assms
  by (auto simp: ota_update_core_def Let_def send_command_def emit_def log_event_def)

lemma auto_ota_worker_sessions:
  assumes dl: "w_download env = Streamed clen chunks None"
    and cl: "(case clen of None \<Rightarrow> Some 0 | Some h \<Rightarrow> py_int h) = Some n"
    and sha: "\<not> truthy (j_sha256_hash job)
              \<or> (\<not> w_sha_raises env
                  \<and> lower (w_sha256 env (concat chunks)) = lower (get_or (j_sha256_hash job) []))"
  shows "ota_sessions (outcome_world (auto_ota_worker s env job)) =
     (ota_sessions s)(j_node_id job :=
        (if gw_connected s \<and> gw_ser s \<and> w_wr env then
           Some \<lparr>firmware_data = concat chunks, s_version = j_version job,
                 s_size = int (length (concat chunks)), chunk_size = Some 1024,
                 started_at = w_now env, s_node_name = j_node_name job, s_auto = Some True\<rparr>
         else None))"
proof -
  define s0 where "s0 = emit s ''auto_ota_started''
                 [(''node_id'', jnode (j_node_id job)), (''node_name'', JStr (j_node_name job)),
                  (''version'', jstr_opt (j_version job)), (''timestamp'', JStr (w_now env))]"
  define s1 where "s1 = s0\<lparr>files := (files s0)(w_temp_path env \<mapsto> concat chunks)\<rparr>"
  have d: "download_to_temp s0 env = Inr s1"
    unfolding s1_def by (rule download_complete [OF dl cl])
  have f: "files s1 (w_temp_path env) = Some (concat chunks)" by (simp add: s1_def)
  have w: "auto_ota_worker s env job = Returned () (send_auto_offer s1 env job)"
    unfolding auto_ota_worker_def Let_def s0_def [symmetric] d
    using sha f by auto
  have k: "ota_sessions s1 = ota_sessions s" "gw_connected s1 = gw_connected s"
    "gw_ser s1 = gw_ser s"
    by (simp_all add: s1_def s0_def emit_def)
  show ?thesis
    unfolding w outcome_world_def
    using send_auto_offer_sessions [OF f, of job] k by simp
qed

text \<open>
  Claim C3, amended. The session map holds at most one session for a node id. Neither
  trigger looks at the map before it writes: a manual trigger that has passed its checks
  (firmware file there, node known, gateway connected), and an auto-OTA worker whose download
  has completed and whose digest check has passed, store the new session under the node id
  in place of whatever session was there, and remove the entry again when the offer cannot
  be sent; the sessions of all other node ids are unchanged.
\<close>

theorem trigger_replaces_session:
  "(files s path = Some fw \<and> find (\<lambda>n. n_id n = Some k) (nodes s) = Some node
      \<and> gw_connected s \<longrightarrow>
      ota_sessions (snd (ota_update_core s wr ts (Some k) version path who)) =
        (ota_sessions s)(Some k :=
           (if gw_ser s \<and> wr then
              Some \<lparr>firmware_data = fw, s_version = Some version, s_size = int (length fw),
                    chunk_size = Some 1024, started_at = ts, s_node_name = n_name node,
                    s_auto = Some False\<rparr>
            else None)))
   \<and> (w_download env = Streamed clen chunks None
      \<and> (case clen of None \<Rightarrow> Some 0 | Some h \<Rightarrow> py_int h) = Some n
      \<and> (\<not> truthy (j_sha256_hash job)
          \<or> (\<not> w_sha_raises env
              \<and> lower (w_sha256 env (concat chunks)) = lower (get_or (j_sha256_hash job) []))) \<longrightarrow>
      ota_sessions (outcome_world (auto_ota_worker s env job)) =
        (ota_sessions s)(j_node_id job :=
           (if gw_connected s \<and> gw_ser s \<and> w_wr env then
              Some \<lparr>firmware_data = concat chunks, s_version = j_version job,
                    s_size = int (length (concat chunks)), chunk_size = Some 1024,
                    started_at = w_now env, s_node_name = j_node_name job, s_auto = Some True\<rparr>
            else None)))"
  using ota_update_core_sessions [of s path fw k node wr ts version who]
    auto_ota_worker_sessions [of env clen chunks n job s]
  by blast

theorem trigger_replaces_session_witness:
  "ota_sessions fixture_world (Some 7) = Some fixture_session
   \<and> ota_sessions (snd (ota_update_core fixture_world True ''t1'' (Some 7) ''3.0.0''
                          ''firmware_uploads/fw.bin'' ''admin'')) (Some 7)
       = Some \<lparr>firmware_data = [9, 8, 7], s_version = Some ''3.0.0'', s_size = 3,
               chunk_size = Some 1024, started_at = ''t1'', s_node_name = ''Node_7'',
               s_auto = Some False\<rparr>
   \<and> ota_sessions (outcome_world (auto_ota_worker fixture_world
        (fixture_worker_env (Streamed (Some ''3'') [[1, 2], [3]] None) False True)
        fixture_job)) (Some 7)
       = Some \<lparr>firmware_data = [1, 2, 3], s_version = Some ''3.0.0'', s_size = 3,
               chunk_size = Some 1024, started_at = ''t1'', s_node_name = ''Node_7'',
               s_auto = Some True\<rparr>
   \<and> ota_sessions (outcome_world (auto_ota_worker fixture_world
        (fixture_worker_env (Streamed (Some ''3'') [[1, 2], [3]] None) False False)
        fixture_job)) (Some 7)
       = None"
proof -
  let ?dl = "Streamed (Some ''3'') [[1, 2], [3]] None"
  have p: "py_int ''3'' = Some 3" by code_simp
  have lw: "lower ''ab'' = ''ab''" "lower ''AB'' = ''ab''" by code_simp+
  have m: "files fixture_world ''firmware_uploads/fw.bin'' = Some [9, 8, 7]
           \<and> find (\<lambda>n. n_id n = Some 7) (nodes fixture_world) = Some fixture_node
           \<and> gw_connected fixture_world"
    by (simp add: fixture_world_def fixture_node_def)
  have a: "w_download (fixture_worker_env ?dl False b) = ?dl
      \<and> (case Some ''3'' of None \<Rightarrow> Some 0 | Some h \<Rightarrow> py_int h) = Some 3
      \<and> (\<not> truthy (j_sha256_hash fixture_job)
          \<or> (\<not> w_sha_raises (fixture_worker_env ?dl False b)
              \<and> lower (w_sha256 (fixture_worker_env ?dl False b) (concat [[1, 2], [3]]))
                 = lower (get_or (j_sha256_hash fixture_job) [])))" for b
    by (simp add: fixture_worker_env_def fixture_job_def get_or_def lw p)
  have g: "gw_ser fixture_world" "gw_connected fixture_world"
    "ota_sessions fixture_world (Some 7) = Some fixture_session"
    by (simp_all add: fixture_world_def)
  note t1 = trigger_replaces_session [where s = fixture_world and path = "''firmware_uploads/fw.bin''"
      and fw = "[9, 8, 7]" and k = 7 and node = fixture_node and wr = True and ts = "''t1''"
      and version = "''3.0.0''" and who = "''admin''", THEN conjunct1, rule_format, OF m]
  note t2 = trigger_replaces_session [where s = fixture_world
      and env = "fixture_worker_env ?dl False True" and clen = "Some ''3''"
      and chunks = "[[1, 2], [3]]" and n = 3 and job = fixture_job,
      THEN conjunct2, rule_format, OF a]
  note t3 = trigger_replaces_session [where s = fixture_world
      and env = "fixture_worker_env ?dl False False" and clen = "Some ''3''"
      and chunks = "[[1, 2], [3]]" and n = 3 and job = fixture_job,
      THEN conjunct2, rule_format, OF a]
  have c1: "ota_sessions (snd (ota_update_core fixture_world True ''t1'' (Some 7) ''3.0.0''
                          ''firmware_uploads/fw.bin'' ''admin'')) (Some 7)
       = Some \<lparr>firmware_data = [9, 8, 7], s_version = Some ''3.0.0'', s_size = 3,
               chunk_size = Some 1024, started_at = ''t1'', s_node_name = ''Node_7'',
               s_auto = Some False\<rparr>"
    unfolding t1 using g by (simp add: fixture_node_def)
  have c2: "ota_sessions (outcome_world (auto_ota_worker fixture_world
        (fixture_worker_env ?dl False True) fixture_job)) (Some 7)
       = Some \<lparr>firmware_data = [1, 2, 3], s_version = Some ''3.0.0'', s_size = 3,
               chunk_size = Some 1024, started_at = ''t1'', s_node_name = ''Node_7'',
               s_auto = Some True\<rparr>"
    unfolding t2 using g by (simp add: fixture_worker_env_def fixture_job_def)
  have c3: "ota_sessions (outcome_world (auto_ota_worker fixture_world
        (fixture_worker_env ?dl False False) fixture_job)) (Some 7)
       = None"
    unfolding t3 using g by (simp add: fixture_worker_env_def fixture_job_def)
  from g(3) c1 c2 c3 show ?thesis by blast
qed

end
